theory Spec2Isabelle
  imports Main "HOL-Library.AList" "HOL-Library.Sublist"
begin

section \<open>The temporary-file examples script\<close>

text \<open>
  The program is \<^verbatim>\<open>python-example.py\<close>: five examples, run top to bottom, that create
  temporary files and directories with \<^verbatim>\<open>tempfile\<close>, use them and delete them.
  The script has no functions and no input: all it does is call the standard library.
  The embedding therefore has two layers.

  \<^item> The library calls the script makes (\<^verbatim>\<open>print\<close>, \<^verbatim>\<open>open\<close>, \<^verbatim>\<open>os.remove\<close>,
    \<^verbatim>\<open>tempfile.NamedTemporaryFile\<close>, \<^verbatim>\<open>subprocess.run\<close>, ...) are functions on an
    explicit \<open>world\<close> (file system, open file objects, standard output). A call returns
    \<open>Ok v\<close> or \<open>Raised e\<close> together with the new world, so the world is still there
    after an exception, as it is for a \<^verbatim>\<open>finally\<close> block.
  \<^item> The script itself: one definition for each example, built from the constructs the
    source uses (\<^verbatim>\<open>with\<close>, \<^verbatim>\<open>try\<close>/\<^verbatim>\<open>finally\<close>, \<^verbatim>\<open>for\<close>), with the blocks that the
    properties speak about (a \<^verbatim>\<open>with\<close> body, a \<^verbatim>\<open>finally\<close> block) named on their own.

  What the script cannot decide is a field of the environment \<open>env\<close>: the temporary
  directory, the random names \<^verbatim>\<open>tempfile\<close> draws, which calls fail for reasons outside
  the model (disk full, closed pipe), the order of a directory listing, whether an
  unreferenced object is finalised at once, and what becomes of the child process.
\<close>

subsection \<open>Exceptions and results\<close>

datatype py_error =
    OSError
  | FileNotFoundError
  | FileExistsError
  | IsADirectoryError
  | NotADirectoryError
  | ValueError
  | UnsupportedOperation
  | SystemExit int

datatype 'a res = Ok 'a | Raised py_error

subsection \<open>The world: file system, file objects, standard output\<close>

text \<open>
  The file system is flat: an association list from path strings to nodes. A regular
  file has its content and its permission bits. Text is a list of 8-bit characters:
  the bytes of the UTF-8 encoding, with \<^verbatim>\<open>\n\<close> as the line end (POSIX, where text mode
  does not translate it).
\<close>

type_synonym path = string

datatype node = File string nat | Dir

type_synonym filesystem = "(path \<times> node) list"

datatype fmode = ModeR | ModeW | ModeWPlusB

text \<open>
  A file object: \<open>h_buf\<close> is what was written and not yet flushed to the file.
  \<open>h_delete\<close> is the \<^verbatim>\<open>delete\<close> flag of \<^verbatim>\<open>NamedTemporaryFile\<close> (False for \<^verbatim>\<open>open\<close>).
  A file object of the script is its index in \<open>handles\<close>.
\<close>

record handle =
  h_name :: path
  h_mode :: fmode
  h_buf :: string
  h_closed :: bool
  h_delete :: bool

record world =
  fs :: filesystem
  handles :: "handle list"
  stdout :: string
  clock :: nat
  names_drawn :: nat

text \<open>\<^verbatim>\<open>subprocess.CompletedProcess\<close>, with the fields the script and its properties read.\<close>

record completed_process =
  returncode :: int
  proc_stdout :: string

text \<open>
  What happens to the child of \<^verbatim>\<open>subprocess.run\<close>: the executable cannot be started;
  or the child is killed by a signal before it writes anything; or it runs the
  interpreter on its arguments.
\<close>

datatype spawn_outcome = ExecFails | Killed nat | Runs

record env =
  tmpdir :: path
  sys_executable :: path
  rand :: "nat \<Rightarrow> nat"
  fault :: "nat \<Rightarrow> bool"
  create_mode :: nat
  listdir_key :: "string \<Rightarrow> nat"
  refcounting :: bool
  spawn :: spawn_outcome
  other_programs :: "string \<Rightarrow> string list \<Rightarrow> world \<Rightarrow> unit res \<times> world"

type_synonym 'a io = "world \<Rightarrow> 'a res \<times> world"

subsection \<open>Statements: sequencing, \<^verbatim>\<open>try\<close>/\<^verbatim>\<open>finally\<close>, \<^verbatim>\<open>with\<close>, \<^verbatim>\<open>for\<close>\<close>

definition io_return :: "'a \<Rightarrow> 'a io" where
  "io_return x w = (Ok x, w)"

definition io_raise :: "py_error \<Rightarrow> 'a io" where
  "io_raise e w = (Raised e, w)"

definition io_bind :: "'a io \<Rightarrow> ('a \<Rightarrow> 'b io) \<Rightarrow> 'b io" where
  "io_bind m k w = (case m w of (Ok x, w1) \<Rightarrow> k x w1 | (Raised e, w1) \<Rightarrow> (Raised e, w1))"

definition io_seq :: "unit io \<Rightarrow> 'a io \<Rightarrow> 'a io" where
  "io_seq m k = io_bind m (\<lambda>_. k)"

text \<open>
  \<^verbatim>\<open>try: body finally: fin\<close>. The \<^verbatim>\<open>finally\<close> block runs in the world the body left,
  whether the body returned or raised; an exception of the block itself replaces the
  body's outcome.
\<close>

definition try_finally :: "'a io \<Rightarrow> unit io \<Rightarrow> 'a io" where
  "try_finally body fin w =
     (case body w of (r, w1) \<Rightarrow>
        (case fin w1 of (Ok _, w2) \<Rightarrow> (r, w2) | (Raised e, w2) \<Rightarrow> (Raised e, w2)))"

text \<open>
  \<^verbatim>\<open>with mgr as r: body\<close> for the context managers of the script, none of which
  swallows an exception: the exit action runs like a \<^verbatim>\<open>finally\<close> block.
\<close>

definition with_stmt :: "'r io \<Rightarrow> ('r \<Rightarrow> unit io) \<Rightarrow> ('r \<Rightarrow> 'a io) \<Rightarrow> 'a io" where
  "with_stmt mgr exit_action body = io_bind mgr (\<lambda>r. try_finally (body r) (exit_action r))"

fun for_each :: "'a list \<Rightarrow> ('a \<Rightarrow> unit io) \<Rightarrow> unit io" where
  "for_each [] body = io_return ()"
| "for_each (x # xs) body = io_seq (body x) (for_each xs body)"

subsection \<open>Strings: \<^verbatim>\<open>str\<close>, \<^verbatim>\<open>repr\<close>, \<^verbatim>\<open>strip\<close>\<close>

definition newline :: string where
  "newline = [CHR 0x0A]"

definition hex_digit :: "nat \<Rightarrow> char" where
  "hex_digit n = ''0123456789abcdef'' ! (n mod 16)"

fun py_str_nat :: "nat \<Rightarrow> string" where
  "py_str_nat n = (if n < 10 then [hex_digit n] else py_str_nat (n div 10) @ [hex_digit (n mod 10)])"

declare py_str_nat.simps [simp del]

definition py_str_bool :: "bool \<Rightarrow> string" where
  "py_str_bool b = (if b then ''True'' else ''False'')"

text \<open>
  \<^verbatim>\<open>repr\<close> of a \<^verbatim>\<open>str\<close>: double quotes when the string has a single quote and no
  double quote, single quotes otherwise; the quote and the backslash are escaped, and
  so are the control characters. Exact for ASCII; a byte from 0x80 on is kept as it is,
  as a printable non-ASCII character is.
\<close>

definition py_repr_char :: "char \<Rightarrow> char \<Rightarrow> string" where
  "py_repr_char q c =
     (if c = q \<or> c = CHR 0x5C then [CHR 0x5C, c]
      else if c = CHR 0x09 then [CHR 0x5C, CHR ''t'']
      else if c = CHR 0x0A then [CHR 0x5C, CHR ''n'']
      else if c = CHR 0x0D then [CHR 0x5C, CHR ''r'']
      else if (of_char c :: nat) < 32 \<or> (of_char c :: nat) = 127
        then [CHR 0x5C, CHR ''x'', hex_digit (of_char c div 16), hex_digit (of_char c mod 16)]
      else [c])"

definition py_repr_str :: "string \<Rightarrow> string" where
  "py_repr_str s =
     (let q = (if CHR 0x27 \<in> set s \<and> CHR 0x22 \<notin> set s then CHR 0x22 else CHR 0x27)
      in [q] @ concat (map (py_repr_char q) s) @ [q])"

fun join_comma :: "string list \<Rightarrow> string" where
  "join_comma [] = []"
| "join_comma [x] = x"
| "join_comma (x # y # ys) = x @ '', '' @ join_comma (y # ys)"

definition py_repr_list :: "string list \<Rightarrow> string" where
  "py_repr_list xs = ''['' @ join_comma (map py_repr_str xs) @ '']''"

definition py_isspace :: "char \<Rightarrow> bool" where
  "py_isspace c = ((of_char c :: nat) \<in> {9, 10, 11, 12, 13, 28, 29, 30, 31, 32})"

definition py_strip :: "string \<Rightarrow> string" where
  "py_strip s = rev (dropWhile py_isspace (rev (dropWhile py_isspace s)))"

subsection \<open>Paths: \<^verbatim>\<open>os.path.join\<close>, \<^verbatim>\<open>dirname\<close>, \<^verbatim>\<open>basename\<close> (posixpath)\<close>

definition os_path_join :: "path \<Rightarrow> path \<Rightarrow> path" where
  "os_path_join a b =
     (if b \<noteq> [] \<and> hd b = CHR ''/'' then b
      else if a = [] \<or> last a = CHR ''/'' then a @ b
      else a @ ''/'' @ b)"

definition os_path_dirname :: "path \<Rightarrow> path" where
  "os_path_dirname p =
     (let head = rev (dropWhile (\<lambda>c. c \<noteq> CHR ''/'') (rev p))
      in if head \<noteq> [] \<and> \<not> list_all (\<lambda>c. c = CHR ''/'') head
         then rev (dropWhile (\<lambda>c. c = CHR ''/'') (rev head))
         else head)"

definition os_path_basename :: "path \<Rightarrow> path" where
  "os_path_basename p = rev (takeWhile (\<lambda>c. c \<noteq> CHR ''/'') (rev p))"

subsection \<open>File-system queries\<close>

definition fs_exists :: "filesystem \<Rightarrow> path \<Rightarrow> bool" where
  "fs_exists t p = (map_of t p \<noteq> None)"

definition is_dir :: "filesystem \<Rightarrow> path \<Rightarrow> bool" where
  "is_dir t p = (map_of t p = Some Dir)"

text \<open>The names listed in directory \<open>d\<close>: the entries whose parent is \<open>d\<close>.\<close>

definition dir_entries :: "filesystem \<Rightarrow> path \<Rightarrow> string list" where
  "dir_entries t d =
     remdups (map os_path_basename
       (filter (\<lambda>p. os_path_dirname p = d \<and> p \<noteq> d) (map fst t)))"

text \<open>
  A well-formed file system: the parent of every entry is a directory (the root is its
  own parent).
\<close>

definition wf_fs :: "filesystem \<Rightarrow> bool" where
  "wf_fs t = list_all (\<lambda>p. os_path_dirname p = p \<or> is_dir t (os_path_dirname p)) (map fst t)"

subsection \<open>Library calls that may fail for outside reasons\<close>

text \<open>
  A call that creates, transfers or changes data can fail for a reason the model does
  not hold (no space left, an I/O error, a closed pipe). The environment decides:
  such a call first asks \<open>fault\<close> at the current \<open>clock\<close>, and raises \<^verbatim>\<open>OSError\<close>
  when it says so. Closing a file and the clean-up of a context manager do not ask:
  they fail only for what the file system shows.
\<close>

definition io_op :: "env \<Rightarrow> unit io" where
  "io_op env w =
     (if fault env (clock w) then (Raised OSError, w\<lparr>clock := Suc (clock w)\<rparr>)
      else (Ok (), w\<lparr>clock := Suc (clock w)\<rparr>))"

text \<open>\<^verbatim>\<open>print(s)\<close>: the text and a line end go to standard output.\<close>

definition py_print :: "env \<Rightarrow> string \<Rightarrow> unit io" where
  "py_print env s =
     io_seq (io_op env) (\<lambda>w. (Ok (), w\<lparr>stdout := stdout w @ s @ newline\<rparr>))"

subsection \<open>\<^verbatim>\<open>os\<close>: creating, removing, listing\<close>

text \<open>\<^verbatim>\<open>os.open(p, O_RDWR | O_CREAT | O_EXCL, m)\<close>, as \<^verbatim>\<open>tempfile\<close> calls it.\<close>

definition os_open_creat_excl :: "nat \<Rightarrow> path \<Rightarrow> unit io" where
  "os_open_creat_excl m p w =
     (if fs_exists (fs w) p then (Raised FileExistsError, w)
      else (case map_of (fs w) (os_path_dirname p) of
              None \<Rightarrow> (Raised FileNotFoundError, w)
            | Some (File c m') \<Rightarrow> (Raised NotADirectoryError, w)
            | Some Dir \<Rightarrow> (Ok (), w\<lparr>fs := AList.update p (File [] m) (fs w)\<rparr>)))"

text \<open>\<^verbatim>\<open>os.mkdir(p, m)\<close>. A directory carries no permission bits in the model.\<close>

definition os_mkdir :: "nat \<Rightarrow> path \<Rightarrow> unit io" where
  "os_mkdir m p w =
     (if fs_exists (fs w) p then (Raised FileExistsError, w)
      else (case map_of (fs w) (os_path_dirname p) of
              None \<Rightarrow> (Raised FileNotFoundError, w)
            | Some (File c m') \<Rightarrow> (Raised NotADirectoryError, w)
            | Some Dir \<Rightarrow> (Ok (), w\<lparr>fs := AList.update p Dir (fs w)\<rparr>)))"

definition os_path_exists :: "path \<Rightarrow> bool io" where
  "os_path_exists p w = (Ok (fs_exists (fs w) p), w)"

definition os_remove :: "env \<Rightarrow> path \<Rightarrow> unit io" where
  "os_remove env p =
     io_seq (io_op env)
       (\<lambda>w. case map_of (fs w) p of
               None \<Rightarrow> (Raised FileNotFoundError, w)
             | Some Dir \<Rightarrow> (Raised IsADirectoryError, w)
             | Some (File c m) \<Rightarrow> (Ok (), w\<lparr>fs := AList.delete p (fs w)\<rparr>))"

definition os_chmod :: "env \<Rightarrow> path \<Rightarrow> nat \<Rightarrow> unit io" where
  "os_chmod env p m =
     io_seq (io_op env)
       (\<lambda>w. case map_of (fs w) p of
               None \<Rightarrow> (Raised FileNotFoundError, w)
             | Some Dir \<Rightarrow> (Ok (), w)
             | Some (File c m') \<Rightarrow> (Ok (), w\<lparr>fs := AList.update p (File c m) (fs w)\<rparr>))"

text \<open>
  \<^verbatim>\<open>os.listdir(d)\<close>. The order of the result is not specified: the environment
  fixes it by a key for each name.
\<close>

definition os_listdir :: "env \<Rightarrow> path \<Rightarrow> string list io" where
  "os_listdir env d =
     io_seq (io_op env)
       (\<lambda>w. case map_of (fs w) d of
               None \<Rightarrow> (Raised FileNotFoundError, w)
             | Some (File c m) \<Rightarrow> (Raised NotADirectoryError, w)
             | Some Dir \<Rightarrow> (Ok (sort_key (listdir_key env) (dir_entries (fs w) d)), w))"

subsection \<open>File objects: \<^verbatim>\<open>open\<close>, \<^verbatim>\<open>write\<close>, \<^verbatim>\<open>flush\<close>, \<^verbatim>\<open>read\<close>, \<^verbatim>\<open>close\<close>\<close>

definition new_handle :: "handle \<Rightarrow> nat io" where
  "new_handle h w = (Ok (length (handles w)), w\<lparr>handles := handles w @ [h]\<rparr>)"

definition with_handle :: "nat \<Rightarrow> (handle \<Rightarrow> 'a io) \<Rightarrow> 'a io" where
  "with_handle f k w =
     (if f < length (handles w) then k (handles w ! f) w else (Raised ValueError, w))"

text \<open>The attribute \<^verbatim>\<open>f.name\<close>.\<close>

definition file_name :: "nat \<Rightarrow> path io" where
  "file_name f = with_handle f (\<lambda>h. io_return (h_name h))"

text \<open>
  Flushing appends the buffer to the file the name denotes. The script has one writer
  for each file, which starts at an empty file, so appending is writing at the
  writer's position. What is flushed after the file was unlinked is lost.
\<close>

definition flush_buffer :: "nat \<Rightarrow> handle \<Rightarrow> world \<Rightarrow> world" where
  "flush_buffer f h w =
     (case map_of (fs w) (h_name h) of
        Some (File c m) \<Rightarrow>
          w\<lparr>fs := AList.update (h_name h) (File (c @ h_buf h) m) (fs w),
            handles := (handles w)[f := h\<lparr>h_buf := []\<rparr>]\<rparr>
      | _ \<Rightarrow> w\<lparr>handles := (handles w)[f := h\<lparr>h_buf := []\<rparr>]\<rparr>)"

text \<open>
  \<^verbatim>\<open>open(p, 'r')\<close> and \<^verbatim>\<open>open(p, 'w')\<close>. Mode \<^verbatim>\<open>'w'\<close> truncates an existing file and
  creates a missing one, with the permission bits the process's umask leaves.
\<close>

definition py_open :: "env \<Rightarrow> path \<Rightarrow> fmode \<Rightarrow> nat io" where
  "py_open env p mode =
     io_seq (io_op env)
       (\<lambda>w. let h = \<lparr>h_name = p, h_mode = mode, h_buf = [], h_closed = False, h_delete = False\<rparr>
            in case map_of (fs w) p of
                 Some Dir \<Rightarrow> (Raised IsADirectoryError, w)
               | Some (File c m) \<Rightarrow>
                   (if mode = ModeR then new_handle h w
                    else new_handle h (w\<lparr>fs := AList.update p (File [] m) (fs w)\<rparr>))
               | None \<Rightarrow>
                   (if mode = ModeR then (Raised FileNotFoundError, w)
                    else (case map_of (fs w) (os_path_dirname p) of
                            None \<Rightarrow> (Raised FileNotFoundError, w)
                          | Some (File c m) \<Rightarrow> (Raised NotADirectoryError, w)
                          | Some Dir \<Rightarrow>
                              new_handle h
                                (w\<lparr>fs := AList.update p (File [] (create_mode env)) (fs w)\<rparr>))))"

definition file_write :: "env \<Rightarrow> nat \<Rightarrow> string \<Rightarrow> unit io" where
  "file_write env f s =
     io_seq (io_op env)
       (with_handle f (\<lambda>h w.
          if h_closed h then (Raised ValueError, w)
          else if h_mode h = ModeR then (Raised UnsupportedOperation, w)
          else (Ok (), w\<lparr>handles := (handles w)[f := h\<lparr>h_buf := h_buf h @ s\<rparr>]\<rparr>)))"

definition file_flush :: "env \<Rightarrow> nat \<Rightarrow> unit io" where
  "file_flush env f =
     io_seq (io_op env)
       (with_handle f (\<lambda>h w.
          if h_closed h then (Raised ValueError, w) else (Ok (), flush_buffer f h w)))"

text \<open>
  \<^verbatim>\<open>f.read()\<close> on a file object that has not been read yet: the whole content of the
  file. The script reads each file object once.
\<close>

definition file_read :: "env \<Rightarrow> nat \<Rightarrow> string io" where
  "file_read env f =
     io_seq (io_op env)
       (with_handle f (\<lambda>h w.
          if h_closed h then (Raised ValueError, w)
          else if h_mode h = ModeW then (Raised UnsupportedOperation, w)
          else (case map_of (fs w) (h_name h) of
                  Some (File c m) \<Rightarrow> (Ok c, w)
                | _ \<Rightarrow> (Ok [], w))))"

text \<open>\<^verbatim>\<open>f.close()\<close>: flushes, then marks the object closed. Closing twice is allowed.\<close>

definition file_close :: "nat \<Rightarrow> unit io" where
  "file_close f =
     with_handle f (\<lambda>h w.
       if h_closed h then (Ok (), w)
       else (let w1 = flush_buffer f h w
             in (Ok (), w1\<lparr>handles := (handles w1)[f := h\<lparr>h_buf := [], h_closed := True\<rparr>]\<rparr>)))"

subsection \<open>\<^verbatim>\<open>tempfile\<close>\<close>

text \<open>
  The candidate names of \<^verbatim>\<open>_RandomNameSequence\<close>: eight characters drawn from
  \<open>characters\<close>. \<open>rand env i\<close> is the \<open>i\<close>-th draw of the random generator.
\<close>

definition characters :: string where
  "characters = ''abcdefghijklmnopqrstuvwxyz0123456789_''"

definition random_name :: "env \<Rightarrow> nat \<Rightarrow> string" where
  "random_name env k =
     map (\<lambda>i. characters ! (rand env (8 * k + i) mod length characters)) [0..<8]"

definition TMP_MAX :: nat where
  "TMP_MAX = 10000"

text \<open>
  The loop of \<^verbatim>\<open>_mkstemp_inner\<close> and of \<^verbatim>\<open>mkdtemp\<close>: draw a name, try to create
  \<^verbatim>\<open>dir/prefix+name+suffix\<close>, go on to the next name when it exists, give up after
  \<open>TMP_MAX\<close> names. \<open>create\<close> is \<open>os_open_creat_excl 0o600\<close> or \<open>os_mkdir 0o700\<close>.
\<close>

fun tmp_name_loop ::
  "env \<Rightarrow> nat \<Rightarrow> (path \<Rightarrow> unit io) \<Rightarrow> path \<Rightarrow> string \<Rightarrow> string \<Rightarrow> path io" where
  "tmp_name_loop env 0 create dir pre suf w = (Raised FileExistsError, w)"
| "tmp_name_loop env (Suc n) create dir pre suf w =
     (let file = os_path_join dir (pre @ random_name env (names_drawn w) @ suf);
          w1 = w\<lparr>names_drawn := Suc (names_drawn w)\<rparr>
      in case create file w1 of
           (Ok u, w2) \<Rightarrow> (Ok file, w2)
         | (Raised e, w2) \<Rightarrow>
             (if e = FileExistsError then tmp_name_loop env n create dir pre suf w2
              else (Raised e, w2)))"

text \<open>
  \<^verbatim>\<open>NamedTemporaryFile(mode, suffix, delete)\<close>: a new file with mode 0o600 (384) in
  the temporary directory, and an open file object on it.
\<close>

definition NamedTemporaryFile :: "env \<Rightarrow> fmode \<Rightarrow> bool \<Rightarrow> string \<Rightarrow> nat io" where
  "NamedTemporaryFile env mode delete suf =
     io_seq (io_op env)
       (io_bind (tmp_name_loop env TMP_MAX (os_open_creat_excl 384) (tmpdir env) ''tmp'' suf)
          (\<lambda>name. new_handle
             \<lparr>h_name = name, h_mode = mode, h_buf = [], h_closed = False, h_delete = delete\<rparr>))"

text \<open>
  Closing a temporary file object (\<^verbatim>\<open>close\<close>, \<^verbatim>\<open>__exit__\<close> and the finaliser all end
  in \<^verbatim>\<open>_TemporaryFileCloser\<close>): close the file; then, with \<^verbatim>\<open>delete=True\<close>, unlink
  the name, where a name that is already gone is not an error.
\<close>

definition tempfile_close :: "nat \<Rightarrow> unit io" where
  "tempfile_close f =
     io_seq (file_close f)
       (with_handle f (\<lambda>h w.
          if h_delete h then
            (case map_of (fs w) (h_name h) of
               None \<Rightarrow> (Ok (), w)
             | Some Dir \<Rightarrow> (Raised IsADirectoryError, w)
             | Some (File c m) \<Rightarrow> (Ok (), w\<lparr>fs := AList.delete (h_name h) (fs w)\<rparr>))
          else (Ok (), w)))"

text \<open>
  The script drops its only reference to a file object. A runtime that counts
  references (CPython) finalises the object at once, which closes it; another runtime
  leaves it open until some later collection, which the model does not reach.
\<close>

definition drop_reference :: "env \<Rightarrow> nat \<Rightarrow> unit io" where
  "drop_reference env f = (if refcounting env then tempfile_close f else io_return ())"

text \<open>
  \<^verbatim>\<open>TemporaryDirectory()\<close> entered by \<^verbatim>\<open>with\<close>: \<^verbatim>\<open>mkdtemp\<close> makes a new directory
  with mode 0o700 (448); the value bound by \<^verbatim>\<open>as\<close> is its path.
\<close>

definition TemporaryDirectory :: "env \<Rightarrow> path io" where
  "TemporaryDirectory env =
     io_seq (io_op env) (tmp_name_loop env TMP_MAX (os_mkdir 448) (tmpdir env) ''tmp'' [])"

text \<open>
  Its exit: \<^verbatim>\<open>cleanup\<close> removes the tree below the path. A directory that is already
  gone is not an error.
\<close>

definition tmpdir_cleanup :: "path \<Rightarrow> unit io" where
  "tmpdir_cleanup d w =
     (case map_of (fs w) d of
        None \<Rightarrow> (Ok (), w)
      | Some (File c m) \<Rightarrow> (Raised NotADirectoryError, w)
      | Some Dir \<Rightarrow>
          (Ok (), w\<lparr>fs := filter (\<lambda>(p, n). p \<noteq> d \<and> \<not> prefix (os_path_join d []) p) (fs w)\<rparr>))"

subsection \<open>The generated script and the child process\<close>

text \<open>The text that example 4 writes to the temporary script (lines 56 to 60).\<close>

definition temp_script_source :: string where
  \<open>temp_script_source =
     ''#!/usr/bin/env python3\<newline>import sys\<newline>print(f"Temporary script running with args: {sys.argv[1:]}")\<newline>sys.exit(0)\<newline>''\<close>

text \<open>
  What that text does when the interpreter runs it with \<^verbatim>\<open>sys.argv\<close>: it prints the
  list \<^verbatim>\<open>sys.argv[1:]\<close> and raises \<^verbatim>\<open>SystemExit(0)\<close>.
\<close>

definition temp_script_main :: "env \<Rightarrow> string list \<Rightarrow> unit io" where
  "temp_script_main env sys_argv =
     io_seq (py_print env (''Temporary script running with args: '' @ py_repr_list (drop 1 sys_argv)))
       (io_raise (SystemExit 0))"

text \<open>
  The exit status of the interpreter: 0 at the end of the program, the argument of
  \<^verbatim>\<open>SystemExit\<close>, 1 for any other exception that nothing caught.
\<close>

definition exit_status :: "unit res \<Rightarrow> int" where
  "exit_status r =
     (case r of Ok u \<Rightarrow> 0 | Raised e \<Rightarrow> (case e of SystemExit n \<Rightarrow> n | _ \<Rightarrow> 1))"

text \<open>
  The interpreter with arguments \<open>argv\<close>: it runs the file named first. A file it
  cannot open ends it with status 2. The generated script runs as \<open>temp_script_main\<close>
  says; what any other program text does is left to the environment.
\<close>

definition python_main :: "env \<Rightarrow> string list \<Rightarrow> unit io" where
  "python_main env argv w =
     (case argv of
        [] \<Rightarrow> (Ok (), w)
      | script # args \<Rightarrow>
          (case map_of (fs w) script of
             Some (File src m) \<Rightarrow>
               (if src = temp_script_source then temp_script_main env argv w
                else other_programs env src argv w)
           | _ \<Rightarrow> (Raised (SystemExit 2), w)))"

text \<open>
  \<^verbatim>\<open>subprocess.run(args, capture_output=True, text=True)\<close> where \<open>args\<close> starts with
  \<^verbatim>\<open>sys.executable\<close>. There is no \<^verbatim>\<open>check=True\<close>: the call raises only when the
  child cannot be started. The child has its own standard output, which is captured,
  and its own file objects; it shares the file system.
\<close>

definition subprocess_run :: "env \<Rightarrow> string list \<Rightarrow> completed_process io" where
  "subprocess_run env args w =
     (case spawn env of
        ExecFails \<Rightarrow> (Raised OSError, w)
      | Killed signal \<Rightarrow> (Ok \<lparr>returncode = - int signal, proc_stdout = []\<rparr>, w)
      | Runs \<Rightarrow>
          (case python_main env (tl args)
                  \<lparr>fs = fs w, handles = [], stdout = [], clock = clock w, names_drawn = 0\<rparr> of
             (r, c) \<Rightarrow>
               (Ok \<lparr>returncode = exit_status r, proc_stdout = stdout c\<rparr>,
                w\<lparr>fs := fs c, clock := clock c\<rparr>)))"

subsection \<open>The script\<close>

text \<open>The check mark that starts each headline, in UTF-8.\<close>

definition check_mark :: string where
  "check_mark = [CHR 0xE2, CHR 0x9C, CHR 0x93]"

text \<open>Example 1 (lines 9 to 18): the body of the \<^verbatim>\<open>with\<close> for file object \<open>f\<close>, then the example.\<close>

definition example1_body :: "env \<Rightarrow> nat \<Rightarrow> unit io" where
  "example1_body env f =
     io_bind (file_name f) (\<lambda>temp_file.
     io_seq (file_write env f ''Sample data\<newline>Line 1\<newline>Line 2\<newline>'')
    (io_seq (file_flush env f)
    (io_seq (py_print env (''  Created: '' @ temp_file))
       (with_stmt (py_open env temp_file ModeR) file_close (\<lambda>read_f.
          io_bind (file_read env read_f) (\<lambda>s. py_print env (''  Content: '' @ s)))))))"

definition example1 :: "env \<Rightarrow> unit io" where
  "example1 env =
     io_seq (py_print env (check_mark @ '' Example 1: Temporary file with context manager''))
    (io_seq (with_stmt (NamedTemporaryFile env ModeW True ''.txt'') tempfile_close
               (example1_body env))
       (py_print env ''  Auto-cleaned up on exit\<newline>''))"

text \<open>
  Example 2 (lines 21 to 34). Line 22 keeps the name of the new file and nothing else:
  the file object is dropped. Then the \<^verbatim>\<open>try\<close> block and the \<^verbatim>\<open>finally\<close> block.
\<close>

definition example2_create :: "env \<Rightarrow> path io" where
  "example2_create env =
     io_bind (NamedTemporaryFile env ModeWPlusB False ''.txt'') (\<lambda>tmp.
     io_bind (file_name tmp) (\<lambda>name.
     io_seq (drop_reference env tmp) (io_return name)))"

definition example2_try :: "env \<Rightarrow> path \<Rightarrow> unit io" where
  "example2_try env temp_file =
     io_seq (py_print env (''  Created: '' @ temp_file))
    (io_seq (with_stmt (py_open env temp_file ModeW) file_close (\<lambda>f.
               file_write env f ''Manual cleanup example\<newline>''))
       (with_stmt (py_open env temp_file ModeR) file_close (\<lambda>f.
          io_bind (file_read env f) (\<lambda>s. py_print env (''  Content: '' @ s)))))"

definition example2_finally :: "env \<Rightarrow> path \<Rightarrow> unit io" where
  "example2_finally env temp_file =
     io_bind (os_path_exists temp_file) (\<lambda>found.
       if found then
         io_seq (os_remove env temp_file) (py_print env ''  Manually cleaned up\<newline>'')
       else io_return ())"

definition example2 :: "env \<Rightarrow> unit io" where
  "example2 env =
     io_seq (py_print env (check_mark @ '' Example 2: Manual cleanup with try-finally''))
       (io_bind (example2_create env) (\<lambda>temp_file.
          try_finally (example2_try env temp_file) (example2_finally env temp_file)))"

text \<open>Example 3 (lines 37 to 50): the body of the \<^verbatim>\<open>with\<close> for the directory, then the example.\<close>

definition example3_body :: "env \<Rightarrow> path \<Rightarrow> unit io" where
  "example3_body env temp_dir =
     io_seq (py_print env (''  Created: '' @ temp_dir))
    (io_seq (for_each [0..<3] (\<lambda>i.
               with_stmt
                 (py_open env (os_path_join temp_dir (''file'' @ py_str_nat i @ ''.txt'')) ModeW)
                 file_close
                 (\<lambda>f. file_write env f (''File '' @ py_str_nat i @ '' content\<newline>''))))
       (io_bind (os_listdir env temp_dir) (\<lambda>files.
          py_print env (''  Files created: '' @ py_repr_list files))))"

definition example3 :: "env \<Rightarrow> unit io" where
  "example3 env =
     io_seq (py_print env (check_mark @ '' Example 3: Temporary directory''))
    (io_seq (with_stmt (TemporaryDirectory env) tmpdir_cleanup (example3_body env))
       (py_print env ''  Directory auto-cleaned up\<newline>''))"

text \<open>
  Example 4 (lines 53 to 70): the \<^verbatim>\<open>with\<close> that writes the script and yields its name,
  the call of \<^verbatim>\<open>subprocess.run\<close>, the \<^verbatim>\<open>try\<close> block (0o755 is 493) and the
  \<^verbatim>\<open>finally\<close> block.
\<close>

definition example4_write :: "env \<Rightarrow> path io" where
  "example4_write env =
     with_stmt (NamedTemporaryFile env ModeW False ''.py'') tempfile_close (\<lambda>f.
       io_bind (file_name f) (\<lambda>temp_script.
       io_seq (file_write env f temp_script_source) (io_return temp_script)))"

definition example4_spawn :: "env \<Rightarrow> path \<Rightarrow> completed_process io" where
  "example4_spawn env temp_script =
     subprocess_run env [sys_executable env, temp_script, ''arg1'', ''arg2'']"

definition example4_try :: "env \<Rightarrow> path \<Rightarrow> unit io" where
  "example4_try env temp_script =
     io_seq (os_chmod env temp_script 493)
       (io_bind (example4_spawn env temp_script) (\<lambda>result.
          py_print env (''  '' @ py_strip (proc_stdout result) @ newline)))"

definition example4_finally :: "env \<Rightarrow> path \<Rightarrow> unit io" where
  "example4_finally env temp_script =
     io_bind (os_path_exists temp_script) (\<lambda>found.
       if found then os_remove env temp_script else io_return ())"

definition example4 :: "env \<Rightarrow> unit io" where
  "example4 env =
     io_seq (py_print env (check_mark @ '' Example 4: Temporary script''))
       (io_bind (example4_write env) (\<lambda>temp_script.
          try_finally (example4_try env temp_script) (example4_finally env temp_script)))"

text \<open>
  Example 5 (lines 73 to 83). The removal of lines 82 and 83 is named on its own: it
  calls \<^verbatim>\<open>os.remove\<close> with no test before it.
\<close>

definition example5_removal :: "env \<Rightarrow> path \<Rightarrow> unit io" where
  "example5_removal env temp_path =
     io_seq (os_remove env temp_path)
       (io_bind (os_path_exists temp_path) (\<lambda>found.
          py_print env (''  After removal: '' @ py_str_bool found @ newline)))"

definition example5 :: "env \<Rightarrow> unit io" where
  "example5 env =
     io_seq (py_print env (check_mark @ '' Example 5: NamedTemporaryFile with manual deletion''))
       (io_bind (NamedTemporaryFile env ModeWPlusB False ''.txt'') (\<lambda>temp_file.
        io_bind (file_name temp_file) (\<lambda>temp_path.
        io_seq (file_write env temp_file ''Binary data example\<newline>'')
       (io_seq (tempfile_close temp_file)
       (io_seq (io_bind (os_path_exists temp_path) (\<lambda>found.
                  py_print env (''  File persists: '' @ py_str_bool found)))
          (example5_removal env temp_path))))))"

definition script :: "env \<Rightarrow> unit io" where
  "script env =
     io_seq (example1 env)
    (io_seq (example2 env)
    (io_seq (example3 env)
    (io_seq (example4 env)
    (io_seq (example5 env)
       (py_print env (check_mark @ '' All examples completed''))))))"

subsection \<open>A concrete environment and concrete worlds\<close>

text \<open>
  An environment in which nothing fails: the temporary directory is \<^verbatim>\<open>/tmp\<close>, the
  \<open>i\<close>-th random draw is \<open>i\<close> (so the first name is \<^verbatim>\<open>abcdefgh\<close>), references are
  counted and the child runs. \<open>world0\<close> is a file system with \<^verbatim>\<open>/\<close> and \<^verbatim>\<open>/tmp\<close> only;
  \<open>world_file\<close> has one more file.
\<close>

definition env0 :: env where
  "env0 =
     \<lparr>tmpdir = ''/tmp'', sys_executable = ''/usr/bin/python3'', rand = (\<lambda>i. i),
      fault = (\<lambda>n. False), create_mode = 420, listdir_key = (\<lambda>s. 0), refcounting = True,
      spawn = Runs, other_programs = (\<lambda>src argv w. (Raised (SystemExit 1), w))\<rparr>"

definition world0 :: world where
  "world0 =
     \<lparr>fs = [(''/'', Dir), (''/tmp'', Dir)], handles = [], stdout = [], clock = 0,
      names_drawn = 0\<rparr>"

definition world_file :: world where
  "world_file =
     \<lparr>fs = [(''/'', Dir), (''/tmp'', Dir), (''/tmp/tmpabcdefgh.txt'', File ''data'' 384)],
      handles = [], stdout = [], clock = 0, names_drawn = 1\<rparr>"

definition world_file_py :: world where
  "world_file_py =
     \<lparr>fs = [(''/'', Dir), (''/tmp'', Dir), (''/tmp/tmpabcdefgh.py'', File temp_script_source 384)],
      handles = [], stdout = [], clock = 0, names_drawn = 1\<rparr>"

definition env_killed :: env where
  "env_killed = env0\<lparr>spawn := Killed 9\<rparr>"

text \<open>An environment whose fourth call that can fail does fail.\<close>

definition env_faulty :: env where
  "env_faulty = env0\<lparr>fault := (\<lambda>n. n = 3)\<rparr>"

subsection \<open>What a block keeps true\<close>

text \<open>
  \<open>preserves I m\<close>: from a world where \<open>I\<close> holds, the world that \<open>m\<close> leaves satisfies
  \<open>I\<close> again, whether \<open>m\<close> returned or raised. The two conditions used for the scoped
  resources: file object \<open>f\<close> is the deleting temporary file object for path \<open>p\<close> and
  \<open>p\<close> is not a directory; path \<open>d\<close> is not a regular file.
\<close>

definition preserves :: "(world \<Rightarrow> bool) \<Rightarrow> 'a io \<Rightarrow> bool" where
  "preserves I m = (\<forall>w. I w \<longrightarrow> I (snd (m w)))"

definition owns_file :: "nat \<Rightarrow> path \<Rightarrow> world \<Rightarrow> bool" where
  "owns_file f p w =
     (f < length (handles w) \<and> h_name (handles w ! f) = p \<and> h_delete (handles w ! f)
      \<and> map_of (fs w) p \<noteq> Some Dir)"

definition not_a_file :: "path \<Rightarrow> world \<Rightarrow> bool" where
  "not_a_file d w = (case map_of (fs w) d of Some (File c m) \<Rightarrow> False | _ \<Rightarrow> True)"

section \<open>Properties\<close>

subsection \<open>Unfolding the library calls\<close>

lemmas io_defs =
  io_return_def io_raise_def io_bind_def io_seq_def try_finally_def with_stmt_def
  io_op_def py_print_def

lemmas fs_simps = AList.update_conv' AList.delete_conv' nth_append

lemma os_remove_apply:
  "os_remove env p w =
     (if fault env (clock w) then (Raised OSError, w\<lparr>clock := Suc (clock w)\<rparr>)
      else case map_of (fs w) p of
             None \<Rightarrow> (Raised FileNotFoundError, w\<lparr>clock := Suc (clock w)\<rparr>)
           | Some Dir \<Rightarrow> (Raised IsADirectoryError, w\<lparr>clock := Suc (clock w)\<rparr>)
           | Some (File c m) \<Rightarrow>
               (Ok (), w\<lparr>clock := Suc (clock w), fs := AList.delete p (fs w)\<rparr>))"
  by (simp add: os_remove_def io_defs split: option.splits node.splits)

lemma flush_buffer_eq:
  "flush_buffer f h w =
     w\<lparr>fs := (case map_of (fs w) (h_name h) of
                  Some (File c m) \<Rightarrow> AList.update (h_name h) (File (c @ h_buf h) m) (fs w)
                | _ \<Rightarrow> fs w),
       handles := (handles w)[f := h\<lparr>h_buf := []\<rparr>]\<rparr>"
  by (simp add: flush_buffer_def split: option.splits node.splits)

subsection \<open>Runs that return\<close>

text \<open>
  When a statement returns, each of its parts returned: these equivalences take a run
  that ended with \<open>Ok\<close> apart, call by call.
\<close>

lemma io_return_Ok [simp]: "io_return x w = (Ok y, w') \<longleftrightarrow> y = x \<and> w' = w"
  by (auto simp add: io_return_def)

lemma io_raise_Ok [simp]: "io_raise e w \<noteq> (Ok y, w')"
  by (simp add: io_raise_def)

lemma io_bind_Ok:
  "io_bind m k w = (Ok x, w') \<longleftrightarrow> (\<exists>y w1. m w = (Ok y, w1) \<and> k y w1 = (Ok x, w'))"
  by (cases "m w") (auto simp add: io_bind_def split: res.splits)

lemma io_seq_Ok:
  "io_seq m k w = (Ok x, w') \<longleftrightarrow> (\<exists>w1. m w = (Ok (), w1) \<and> k w1 = (Ok x, w'))"
  by (simp add: io_seq_def io_bind_Ok)

lemma try_finally_Ok:
  "try_finally body fin w = (Ok x, w') \<longleftrightarrow>
     (\<exists>w1. body w = (Ok x, w1) \<and> fin w1 = (Ok (), w'))"
  by (cases "body w"; cases "fin (snd (body w))")
    (auto simp add: try_finally_def split: res.splits)

lemma with_stmt_Ok:
  "with_stmt mgr exit_action body w = (Ok x, w') \<longleftrightarrow>
     (\<exists>r w1 w2. mgr w = (Ok r, w1) \<and> body r w1 = (Ok x, w2) \<and> exit_action r w2 = (Ok (), w'))"
  by (auto simp add: with_stmt_def io_bind_Ok try_finally_Ok)

lemmas stmt_Ok = io_bind_Ok io_seq_Ok try_finally_Ok with_stmt_Ok

lemma io_op_Ok:
  "io_op env w = (Ok u, w') \<longleftrightarrow> \<not> fault env (clock w) \<and> w' = w\<lparr>clock := Suc (clock w)\<rparr>"
  by (auto simp add: io_op_def)

lemma py_print_Ok:
  "py_print env s w = (Ok u, w') \<longleftrightarrow>
     \<not> fault env (clock w)
     \<and> w' = w\<lparr>clock := Suc (clock w), stdout := stdout w @ s @ newline\<rparr>"
  by (auto simp add: py_print_def io_seq_Ok io_op_Ok)

lemma file_name_Ok:
  "file_name f w = (Ok p, w') \<longleftrightarrow>
     f < length (handles w) \<and> p = h_name (handles w ! f) \<and> w' = w"
  by (auto simp add: file_name_def with_handle_def)

lemma file_write_Ok:
  "file_write env f s w = (Ok u, w') \<longleftrightarrow>
     \<not> fault env (clock w) \<and> f < length (handles w) \<and> \<not> h_closed (handles w ! f)
     \<and> h_mode (handles w ! f) \<noteq> ModeR
     \<and> w' = w\<lparr>clock := Suc (clock w),
              handles := (handles w)[f := (handles w ! f)\<lparr>h_buf := h_buf (handles w ! f) @ s\<rparr>]\<rparr>"
  by (auto simp add: file_write_def with_handle_def io_seq_Ok io_op_Ok)

lemma file_flush_Ok:
  "file_flush env f w = (Ok u, w') \<longleftrightarrow>
     \<not> fault env (clock w) \<and> f < length (handles w) \<and> \<not> h_closed (handles w ! f)
     \<and> w' = flush_buffer f (handles w ! f) (w\<lparr>clock := Suc (clock w)\<rparr>)"
  by (auto simp add: file_flush_def with_handle_def io_seq_Ok io_op_Ok)

lemma file_read_Ok:
  "file_read env f w = (Ok s, w') \<longleftrightarrow>
     \<not> fault env (clock w) \<and> f < length (handles w) \<and> \<not> h_closed (handles w ! f)
     \<and> h_mode (handles w ! f) \<noteq> ModeW
     \<and> s = (case map_of (fs w) (h_name (handles w ! f)) of Some (File c m) \<Rightarrow> c | _ \<Rightarrow> [])
     \<and> w' = w\<lparr>clock := Suc (clock w)\<rparr>"
  by (auto simp add: file_read_def with_handle_def io_seq_Ok io_op_Ok
      split: option.splits node.splits)

lemma file_close_Ok:
  "file_close f w = (Ok u, w') \<longleftrightarrow>
     f < length (handles w)
     \<and> w' = (if h_closed (handles w ! f) then w
             else (flush_buffer f (handles w ! f) w)
                    \<lparr>handles := (handles w)[f := (handles w ! f)\<lparr>h_buf := [], h_closed := True\<rparr>]\<rparr>)"
  by (auto simp add: file_close_def with_handle_def flush_buffer_def Let_def
      split: option.splits node.splits)

lemma delete_absent: "map_of t k = None \<Longrightarrow> AList.delete k t = t"
  by (induction t) (auto split: if_splits)

lemma tempfile_close_Ok:
  "tempfile_close f w = (Ok u, w') \<longleftrightarrow>
     (\<exists>w1. file_close f w = (Ok (), w1)
        \<and> (if h_delete (handles w1 ! f)
            then map_of (fs w1) (h_name (handles w1 ! f)) \<noteq> Some Dir
              \<and> w' = w1\<lparr>fs := AList.delete (h_name (handles w1 ! f)) (fs w1)\<rparr>
            else w' = w1))"
  by (auto simp add: tempfile_close_def with_handle_def io_seq_Ok file_close_Ok delete_absent
        flush_buffer_eq split: option.splits node.splits if_splits)

lemma drop_reference_Ok:
  "drop_reference env f w = (Ok u, w') \<longleftrightarrow>
     (if refcounting env then tempfile_close f w = (Ok (), w') else w' = w)"
  by (auto simp add: drop_reference_def)

lemma os_path_exists_Ok:
  "os_path_exists p w = (Ok b, w') \<longleftrightarrow> b = fs_exists (fs w) p \<and> w' = w"
  by (auto simp add: os_path_exists_def)

lemma os_remove_Ok:
  "os_remove env p w = (Ok u, w') \<longleftrightarrow>
     \<not> fault env (clock w) \<and> (\<exists>c m. map_of (fs w) p = Some (File c m))
     \<and> w' = w\<lparr>clock := Suc (clock w), fs := AList.delete p (fs w)\<rparr>"
  by (auto simp add: os_remove_apply split: option.splits node.splits)

lemma os_chmod_Ok:
  "os_chmod env p m w = (Ok u, w') \<longleftrightarrow>
     \<not> fault env (clock w) \<and> map_of (fs w) p \<noteq> None
     \<and> w' = w\<lparr>clock := Suc (clock w),
              fs := (case map_of (fs w) p of
                       Some (File c m') \<Rightarrow> AList.update p (File c m) (fs w)
                     | _ \<Rightarrow> fs w)\<rparr>"
  by (auto simp add: os_chmod_def io_seq_Ok io_op_Ok split: option.splits node.splits)

lemma os_listdir_Ok:
  "os_listdir env d w = (Ok names, w') \<longleftrightarrow>
     \<not> fault env (clock w) \<and> is_dir (fs w) d
     \<and> names = sort_key (listdir_key env) (dir_entries (fs w) d)
     \<and> w' = w\<lparr>clock := Suc (clock w)\<rparr>"
  by (auto simp add: os_listdir_def io_seq_Ok io_op_Ok is_dir_def
      split: option.splits node.splits)

lemma py_open_read_Ok:
  "py_open env p ModeR w = (Ok f, w') \<longleftrightarrow>
     \<not> fault env (clock w) \<and> (\<exists>c m. map_of (fs w) p = Some (File c m))
     \<and> f = length (handles w)
     \<and> w' = w\<lparr>clock := Suc (clock w),
              handles := handles w @
                [\<lparr>h_name = p, h_mode = ModeR, h_buf = [], h_closed = False, h_delete = False\<rparr>]\<rparr>"
  by (auto simp add: py_open_def io_seq_Ok io_op_Ok new_handle_def Let_def
      split: option.splits node.splits)

lemma py_open_write_Ok:
  "py_open env p ModeW w = (Ok f, w') \<longleftrightarrow>
     \<not> fault env (clock w) \<and> map_of (fs w) p \<noteq> Some Dir
     \<and> (map_of (fs w) p = None \<longrightarrow> is_dir (fs w) (os_path_dirname p))
     \<and> f = length (handles w)
     \<and> w' = w\<lparr>clock := Suc (clock w),
              fs := AList.update p
                (File [] (case map_of (fs w) p of Some (File c m) \<Rightarrow> m | _ \<Rightarrow> create_mode env))
                (fs w),
              handles := handles w @
                [\<lparr>h_name = p, h_mode = ModeW, h_buf = [], h_closed = False, h_delete = False\<rparr>]\<rparr>"
  by (auto simp add: py_open_def io_seq_Ok io_op_Ok new_handle_def Let_def is_dir_def
      split: option.splits node.splits)

lemma example2_finally_Ok:
  "example2_finally env p w = (Ok u, w') \<longleftrightarrow>
     (if fs_exists (fs w) p
      then \<exists>w1. os_remove env p w = (Ok (), w1)
             \<and> py_print env ''  Manually cleaned up\<newline>'' w1 = (Ok (), w')
      else w' = w)"
  by (auto simp add: example2_finally_def io_bind_Ok io_seq_Ok os_path_exists_Ok)

lemma example4_finally_Ok:
  "example4_finally env p w = (Ok u, w') \<longleftrightarrow>
     (if fs_exists (fs w) p then os_remove env p w = (Ok (), w') else w' = w)"
  by (auto simp add: example4_finally_def io_bind_Ok os_path_exists_Ok)

subsection \<open>Temporary names\<close>

text \<open>
  What the name loop returns: an exception, with the file system as it was; or a path
  that did not exist, whose parent is a directory, and which now holds the new node.
\<close>

lemma tmp_name_loop_result:
  assumes creator: "create = os_open_creat_excl m \<and> node = File [] m
      \<or> create = os_mkdir m \<and> node = Dir"
    and run: "tmp_name_loop env n create dir pre suf w = (r, w')"
  shows "(\<exists>e j. r = Raised e \<and> w' = w\<lparr>names_drawn := j\<rparr>)
     \<or> (\<exists>p k j. r = Ok p \<and> p = os_path_join dir (pre @ random_name env k @ suf)
           \<and> \<not> fs_exists (fs w) p \<and> is_dir (fs w) (os_path_dirname p)
           \<and> w' = w\<lparr>names_drawn := j, fs := AList.update p node (fs w)\<rparr>)"
  using run
proof (induction n arbitrary: w)
  case 0
  then have "r = Raised FileExistsError" and "w' = w\<lparr>names_drawn := names_drawn w\<rparr>"
    by simp_all
  then show ?case by blast
next
  case (Suc n)
  let ?file = "os_path_join dir (pre @ random_name env (names_drawn w) @ suf)"
  let ?w1 = "w\<lparr>names_drawn := Suc (names_drawn w)\<rparr>"
  show ?case
  proof (cases "create ?file ?w1")
    case (Pair r1 w2)
    show ?thesis
    proof (cases r1)
      case (Ok u)
      with Pair creator have "\<not> fs_exists (fs w) ?file"
        and "is_dir (fs w) (os_path_dirname ?file)"
        and "w2 = ?w1\<lparr>fs := AList.update ?file node (fs w)\<rparr>"
        by (auto simp add: os_open_creat_excl_def os_mkdir_def is_dir_def
            split: if_splits option.splits node.splits)
      moreover from Pair Ok Suc.prems have "r = Ok ?file" and "w' = w2"
        by (simp_all add: Let_def)
      ultimately show ?thesis
        by (intro disjI2 exI [of _ ?file] exI [of _ "names_drawn w"]
            exI [of _ "Suc (names_drawn w)"]) simp
    next
      case (Raised e)
      with Pair creator have w2: "w2 = ?w1"
        by (auto simp add: os_open_creat_excl_def os_mkdir_def
            split: if_splits option.splits node.splits)
      show ?thesis
      proof (cases "e = FileExistsError")
        case True
        with Pair Raised Suc.prems w2
        have "tmp_name_loop env n create dir pre suf ?w1 = (r, w')"
          by (simp add: Let_def)
        from Suc.IH [OF this] show ?thesis
          by auto
      next
        case False
        with Pair Raised Suc.prems w2 have "r = Raised e" and "w' = ?w1"
          by (simp_all add: Let_def)
        then show ?thesis by blast
      qed
    qed
  qed
qed

lemma NamedTemporaryFile_Ok:
  assumes run: "NamedTemporaryFile env mode del suf w = (Ok f, w1)"
  shows "\<exists>k j. f = length (handles w) \<and> \<not> fault env (clock w)
     \<and> \<not> fs_exists (fs w) (os_path_join (tmpdir env) (''tmp'' @ random_name env k @ suf))
     \<and> is_dir (fs w) (os_path_dirname (os_path_join (tmpdir env) (''tmp'' @ random_name env k @ suf)))
     \<and> w1 = w\<lparr>clock := Suc (clock w), names_drawn := j,
              fs := AList.update (os_path_join (tmpdir env) (''tmp'' @ random_name env k @ suf))
                      (File [] 384) (fs w),
              handles := handles w @
                [\<lparr>h_name = os_path_join (tmpdir env) (''tmp'' @ random_name env k @ suf),
                  h_mode = mode, h_buf = [], h_closed = False, h_delete = del\<rparr>]\<rparr>"
proof -
  let ?w = "w\<lparr>clock := Suc (clock w)\<rparr>"
  from run have ok: "\<not> fault env (clock w)"
    by (auto simp add: NamedTemporaryFile_def io_seq_Ok io_op_Ok)
  from run obtain p w2 where
    loop: "tmp_name_loop env TMP_MAX (os_open_creat_excl 384) (tmpdir env) ''tmp'' suf ?w = (Ok p, w2)"
    and made: "new_handle
       \<lparr>h_name = p, h_mode = mode, h_buf = [], h_closed = False, h_delete = del\<rparr> w2 = (Ok f, w1)"
    by (auto simp add: NamedTemporaryFile_def io_seq_Ok io_bind_Ok io_op_Ok)
  from tmp_name_loop_result [OF _ loop, of 384 "File [] 384"] obtain k j where
    p: "p = os_path_join (tmpdir env) (''tmp'' @ random_name env k @ suf)"
    and fresh: "\<not> fs_exists (fs w) p" "is_dir (fs w) (os_path_dirname p)"
    and w2: "w2 = ?w\<lparr>names_drawn := j, fs := AList.update p (File [] 384) (fs ?w)\<rparr>"
    by auto
  from made w2 have "f = length (handles w)"
    and "w1 = w\<lparr>clock := Suc (clock w), names_drawn := j,
              fs := AList.update p (File [] 384) (fs w),
              handles := handles w @
                [\<lparr>h_name = p, h_mode = mode, h_buf = [], h_closed = False, h_delete = del\<rparr>]\<rparr>"
    by (auto simp add: new_handle_def)
  with p fresh ok show ?thesis
    by blast
qed

lemma TemporaryDirectory_Ok:
  assumes run: "TemporaryDirectory env w = (Ok d, w1)"
  shows "\<exists>k j. d = os_path_join (tmpdir env) (''tmp'' @ random_name env k)
     \<and> \<not> fault env (clock w) \<and> \<not> fs_exists (fs w) d \<and> is_dir (fs w) (os_path_dirname d)
     \<and> w1 = w\<lparr>clock := Suc (clock w), names_drawn := j, fs := AList.update d Dir (fs w)\<rparr>"
proof -
  let ?w = "w\<lparr>clock := Suc (clock w)\<rparr>"
  from run have ok: "\<not> fault env (clock w)"
    and loop: "tmp_name_loop env TMP_MAX (os_mkdir 448) (tmpdir env) ''tmp'' [] ?w = (Ok d, w1)"
    by (auto simp add: TemporaryDirectory_def io_seq_Ok io_op_Ok)
  from tmp_name_loop_result [OF _ loop, of 448 Dir] obtain k j where
    "d = os_path_join (tmpdir env) (''tmp'' @ random_name env k)"
    and "\<not> fs_exists (fs w) d" "is_dir (fs w) (os_path_dirname d)"
    and "w1 = w\<lparr>clock := Suc (clock w), names_drawn := j, fs := AList.update d Dir (fs w)\<rparr>"
    by auto
  with ok show ?thesis
    by blast
qed

subsection \<open>The clean-up blocks on a path that is gone\<close>

lemma example2_finally_absent:
  "\<not> fs_exists (fs w) p \<Longrightarrow> example2_finally env p w = (Ok (), w)"
  by (simp add: example2_finally_def os_path_exists_def io_defs)

lemma example4_finally_absent:
  "\<not> fs_exists (fs w) p \<Longrightarrow> example4_finally env p w = (Ok (), w)"
  by (simp add: example4_finally_def os_path_exists_def io_defs)

lemma example2_finally_Ok_absent:
  "example2_finally env p w = (Ok (), w1) \<Longrightarrow> \<not> fs_exists (fs w1) p"
  by (auto simp add: example2_finally_Ok os_remove_Ok py_print_Ok fs_exists_def fs_simps
      split: if_splits)

lemma example4_finally_Ok_absent:
  "example4_finally env p w = (Ok (), w1) \<Longrightarrow> \<not> fs_exists (fs w1) p"
  by (auto simp add: example4_finally_Ok os_remove_Ok fs_exists_def fs_simps split: if_splits)

subsection \<open>The generated script\<close>

text \<open>
  Claim C10. The body of the generated script ends with exit status 0 for every
  argument list, whenever its \<^verbatim>\<open>print\<close> succeeds: it then raises \<^verbatim>\<open>SystemExit(0)\<close>.
\<close>

theorem temp_script_exits_zero:
  assumes "\<not> fault env (clock w)"
  shows "fst (temp_script_main env sys_argv w) = Raised (SystemExit 0)
    \<and> exit_status (fst (temp_script_main env sys_argv w)) = 0"
  using assms by (simp add: temp_script_main_def exit_status_def io_defs)

theorem temp_script_exits_zero_witness:
  "\<not> fault env0 (clock world0)
   \<and> exit_status (fst (temp_script_main env0 [''/tmp/s.py'', ''it's'', ''-x''] world0)) = 0
   \<and> exit_status (fst (temp_script_main env0 [] world0)) = 0"
proof -
  have ok: "\<not> fault env0 (clock world0)"
    by (simp add: env0_def)
  from temp_script_exits_zero [OF ok, of "[''/tmp/s.py'', ''it's'', ''-x'']"]
    temp_script_exits_zero [OF ok, of "[]"] ok
  show ?thesis by blast
qed

subsection \<open>The guarded deletion of the \<^verbatim>\<open>finally\<close> blocks\<close>

text \<open>
  Claim C4. Running the clean-up step of example 2 or of example 4 again on the same
  path, once the file is gone, does not raise: the existence test fails, the deletion
  is skipped, and the world stays as it is. So a second run after a first one that
  returned changes nothing.
\<close>

theorem cleanup_again_does_not_raise:
  "(\<not> fs_exists (fs w) p \<longrightarrow>
      example2_finally env p w = (Ok (), w) \<and> example4_finally env p w = (Ok (), w))
   \<and> (example2_finally env p w = (Ok (), w2) \<longrightarrow> example2_finally env p w2 = (Ok (), w2))
   \<and> (example4_finally env p w = (Ok (), w4) \<longrightarrow> example4_finally env p w4 = (Ok (), w4))"
proof (intro conjI impI)
  assume "\<not> fs_exists (fs w) p"
  then show "example2_finally env p w = (Ok (), w)"
    and "example4_finally env p w = (Ok (), w)"
    by (simp_all add: example2_finally_absent example4_finally_absent)
next
  assume "example2_finally env p w = (Ok (), w2)"
  then have "\<not> fs_exists (fs w2) p"
    by (rule example2_finally_Ok_absent)
  then show "example2_finally env p w2 = (Ok (), w2)"
    by (rule example2_finally_absent)
next
  assume "example4_finally env p w = (Ok (), w4)"
  then have "\<not> fs_exists (fs w4) p"
    by (rule example4_finally_Ok_absent)
  then show "example4_finally env p w4 = (Ok (), w4)"
    by (rule example4_finally_absent)
qed

theorem cleanup_again_witness:
  "\<not> fs_exists (fs world0) ''/tmp/tmpabcdefgh.txt''
   \<and> example2_finally env0 ''/tmp/tmpabcdefgh.txt'' world0 = (Ok (), world0)
   \<and> example4_finally env0 ''/tmp/tmpabcdefgh.txt'' world0 = (Ok (), world0)
   \<and> example2_finally env0 ''/tmp/tmpabcdefgh.txt'' world_file =
        (Ok (), world0\<lparr>stdout := ''  Manually cleaned up\<newline>\<newline>'', clock := 2, names_drawn := 1\<rparr>)
   \<and> example2_finally env0 ''/tmp/tmpabcdefgh.txt''
        (world0\<lparr>stdout := ''  Manually cleaned up\<newline>\<newline>'', clock := 2, names_drawn := 1\<rparr>) =
        (Ok (), world0\<lparr>stdout := ''  Manually cleaned up\<newline>\<newline>'', clock := 2, names_drawn := 1\<rparr>)
   \<and> example4_finally env0 ''/tmp/tmpabcdefgh.txt'' world_file =
        (Ok (), world0\<lparr>clock := 1, names_drawn := 1\<rparr>)
   \<and> example4_finally env0 ''/tmp/tmpabcdefgh.txt'' (world0\<lparr>clock := 1, names_drawn := 1\<rparr>) =
        (Ok (), world0\<lparr>clock := 1, names_drawn := 1\<rparr>)"
proof -
  have h0: "\<not> fs_exists (fs world0) ''/tmp/tmpabcdefgh.txt''"
    by (simp add: fs_exists_def world0_def)
  have h2: "example2_finally env0 ''/tmp/tmpabcdefgh.txt'' world_file =
      (Ok (), world0\<lparr>stdout := ''  Manually cleaned up\<newline>\<newline>'', clock := 2, names_drawn := 1\<rparr>)"
    by (simp add: example2_finally_def os_path_exists_def os_remove_apply io_defs fs_exists_def
        world_file_def world0_def env0_def newline_def AList.delete_eq)
  have h4: "example4_finally env0 ''/tmp/tmpabcdefgh.txt'' world_file =
      (Ok (), world0\<lparr>clock := 1, names_drawn := 1\<rparr>)"
    by (simp add: example4_finally_def os_path_exists_def os_remove_apply io_defs fs_exists_def
        world_file_def world0_def env0_def AList.delete_eq)
  from h0 h2 h4
    cleanup_again_does_not_raise [where w = world0 and p = "''/tmp/tmpabcdefgh.txt''" and env = env0]
    cleanup_again_does_not_raise [where w = world_file and p = "''/tmp/tmpabcdefgh.txt''"
      and env = env0, THEN conjunct2]
  show ?thesis by blast
qed

text \<open>
  Claim C7, as the spec states it: every explicit deletion of the script is wrapped in
  an existence test, so no deletion runs on a path that is gone. Example 5 refutes it:
  its removal step calls \<^verbatim>\<open>os.remove\<close> at once, and on a path that does not exist
  the call is made and raises.
\<close>

theorem unguarded_removal_counterexample:
  "\<not> fs_exists (fs world0) ''/tmp/tmpabcdefgh.txt''
   \<and> example5_removal env0 ''/tmp/tmpabcdefgh.txt'' world0 =
       (Raised FileNotFoundError, world0\<lparr>clock := 1\<rparr>)"
  by (simp add: example5_removal_def os_remove_apply io_defs fs_exists_def world0_def env0_def)

text \<open>
  Claim C7, amended. The deletions in the \<^verbatim>\<open>finally\<close> blocks of examples 2 and 4 are
  wrapped in an existence test: in no world do these blocks raise
  \<^verbatim>\<open>FileNotFoundError\<close>, because \<^verbatim>\<open>os.remove\<close> runs only on a path that exists. The
  deletion of example 5 has no such test: on a path that does not exist it raises
  \<^verbatim>\<open>FileNotFoundError\<close>.
\<close>

theorem deletion_guard:
  "fst (example2_finally env p w) \<noteq> Raised FileNotFoundError
   \<and> fst (example4_finally env p w) \<noteq> Raised FileNotFoundError
   \<and> (\<not> fs_exists (fs w) p \<and> \<not> fault env (clock w) \<longrightarrow>
        example5_removal env p w = (Raised FileNotFoundError, w\<lparr>clock := Suc (clock w)\<rparr>))"
  by (auto simp add: example2_finally_def example4_finally_def example5_removal_def
      os_path_exists_def os_remove_apply io_defs fs_exists_def split: option.splits node.splits)

theorem deletion_guard_witness:
  "\<not> fs_exists (fs world0) ''/tmp/x'' \<and> \<not> fault env0 (clock world0)
   \<and> example5_removal env0 ''/tmp/x'' world0 = (Raised FileNotFoundError, world0\<lparr>clock := Suc (clock world0)\<rparr>)
   \<and> fst (example2_finally env0 ''/tmp/x'' world0) \<noteq> Raised FileNotFoundError
   \<and> fst (example4_finally env0 ''/tmp/x'' world0) \<noteq> Raised FileNotFoundError"
proof -
  have h: "\<not> fs_exists (fs world0) ''/tmp/x''" "\<not> fault env0 (clock world0)"
    by (simp_all add: fs_exists_def world0_def env0_def)
  from h deletion_guard [of env0 "''/tmp/x''" world0]
  show ?thesis by blast
qed

subsection \<open>Example 5: existence before and after the deletion\<close>

text \<open>
  Claim C6. In example 5 the existence test before the explicit deletion gives true
  and the test after it gives false: a run of the example that returns has printed
  exactly these two reports after its headline.
\<close>

theorem example5_reports:
  assumes run: "example5 env w = (Ok (), w')"
  shows "stdout w' = stdout w @ check_mark
     @ '' Example 5: NamedTemporaryFile with manual deletion'' @ newline
     @ ''  File persists: True'' @ newline
     @ ''  After removal: False'' @ newline @ newline"
proof -
  let ?hdr = "check_mark @ '' Example 5: NamedTemporaryFile with manual deletion''"
  from run obtain w0 temp_file w1 w2 where
    hdr: "py_print env ?hdr w = (Ok (), w0)"
    and ntf: "NamedTemporaryFile env ModeWPlusB False ''.txt'' w0 = (Ok temp_file, w1)"
    and rest: "io_bind (file_name temp_file) (\<lambda>temp_path.
        io_seq (file_write env temp_file ''Binary data example\<newline>'')
       (io_seq (tempfile_close temp_file)
       (io_seq (io_bind (os_path_exists temp_path) (\<lambda>found.
                  py_print env (''  File persists: '' @ py_str_bool found)))
          (example5_removal env temp_path)))) w1 = (Ok (), w')"
    by (auto simp add: example5_def io_seq_Ok io_bind_Ok)
  from NamedTemporaryFile_Ok [OF ntf] obtain k j where
    f: "temp_file = length (handles w0)"
    and w1: "w1 = w0\<lparr>clock := Suc (clock w0), names_drawn := j,
       fs := AList.update (os_path_join (tmpdir env) (''tmp'' @ random_name env k @ ''.txt''))
               (File [] 384) (fs w0),
       handles := handles w0 @
         [\<lparr>h_name = os_path_join (tmpdir env) (''tmp'' @ random_name env k @ ''.txt''),
           h_mode = ModeWPlusB, h_buf = [], h_closed = False, h_delete = False\<rparr>]\<rparr>"
    by blast
  from rest have "stdout w' = stdout w0
     @ ''  File persists: True'' @ newline @ ''  After removal: False'' @ newline @ newline"
    unfolding f w1
    apply (clarsimp simp add: stmt_Ok file_name_Ok file_write_Ok fs_simps)
    apply (clarsimp simp add: tempfile_close_Ok file_close_Ok flush_buffer_eq fs_simps
        os_path_exists_Ok py_print_Ok fs_exists_def py_str_bool_def)
    apply (clarsimp simp add: example5_removal_def stmt_Ok os_remove_Ok os_path_exists_Ok
        py_print_Ok fs_exists_def py_str_bool_def fs_simps newline_def)
    done
  with hdr show ?thesis
    by (auto simp add: py_print_Ok)
qed

theorem example5_reports_witness:
  "example5 env0 world0 = (Ok (), snd (example5 env0 world0))
   \<and> stdout (snd (example5 env0 world0)) = check_mark
     @ '' Example 5: NamedTemporaryFile with manual deletion'' @ newline
     @ ''  File persists: True'' @ newline
     @ ''  After removal: False'' @ newline @ newline"
proof -
  have "fst (example5 env0 world0) = Ok ()"
    by code_simp
  then have run: "example5 env0 world0 = (Ok (), snd (example5 env0 world0))"
    by (simp add: prod_eq_iff)
  from example5_reports [OF run] run show ?thesis
    by (simp add: world0_def)
qed

subsection \<open>Examples 1 and 2: what is read back\<close>

lemma example1_Ok:
  assumes run: "example1 env w = (Ok (), w')"
  shows "\<exists>k. stdout w' = stdout w @ check_mark
         @ '' Example 1: Temporary file with context manager'' @ newline
         @ ''  Created: '' @ os_path_join (tmpdir env) (''tmp'' @ random_name env k @ ''.txt'') @ newline
         @ ''  Content: '' @ ''Sample data\<newline>Line 1\<newline>Line 2\<newline>'' @ newline
         @ ''  Auto-cleaned up on exit'' @ newline @ newline"
  using run
  apply (clarsimp simp add: example1_def stmt_Ok py_print_Ok)
  apply (drule NamedTemporaryFile_Ok)
  apply (clarsimp simp add: example1_body_def stmt_Ok file_name_Ok file_write_Ok py_print_Ok)
  apply (clarsimp simp add: file_flush_Ok flush_buffer_eq fs_simps)
  apply (clarsimp simp add: py_open_read_Ok fs_simps file_read_Ok py_print_Ok)
  apply (clarsimp simp add: file_close_Ok flush_buffer_eq fs_simps)
  apply (clarsimp simp add: tempfile_close_Ok file_close_Ok flush_buffer_eq fs_simps)
  apply (auto simp add: newline_def)
  done

lemma example2_create_Ok:
  assumes run: "example2_create env w = (Ok p, w1)"
  shows "\<exists>k j. p = os_path_join (tmpdir env) (''tmp'' @ random_name env k @ ''.txt'')
     \<and> \<not> fault env (clock w) \<and> \<not> fs_exists (fs w) p \<and> is_dir (fs w) (os_path_dirname p)
     \<and> w1 = w\<lparr>clock := Suc (clock w), names_drawn := j,
              fs := AList.update p (File [] 384) (fs w),
              handles := handles w @
                [\<lparr>h_name = p, h_mode = ModeWPlusB, h_buf = [], h_closed = refcounting env,
                  h_delete = False\<rparr>]\<rparr>"
proof -
  from run obtain tmp wa where
    ntf: "NamedTemporaryFile env ModeWPlusB False ''.txt'' w = (Ok tmp, wa)"
    and rest: "io_bind (file_name tmp) (\<lambda>name.
       io_seq (drop_reference env tmp) (io_return name)) wa = (Ok p, w1)"
    by (auto simp add: example2_create_def io_bind_Ok)
  from NamedTemporaryFile_Ok [OF ntf] obtain k j where
    tmp: "tmp = length (handles w)" and ok: "\<not> fault env (clock w)"
    and fresh: "\<not> fs_exists (fs w) (os_path_join (tmpdir env) (''tmp'' @ random_name env k @ ''.txt''))"
      "is_dir (fs w) (os_path_dirname (os_path_join (tmpdir env) (''tmp'' @ random_name env k @ ''.txt'')))"
    and wa: "wa = w\<lparr>clock := Suc (clock w), names_drawn := j,
       fs := AList.update (os_path_join (tmpdir env) (''tmp'' @ random_name env k @ ''.txt''))
               (File [] 384) (fs w),
       handles := handles w @
         [\<lparr>h_name = os_path_join (tmpdir env) (''tmp'' @ random_name env k @ ''.txt''),
           h_mode = ModeWPlusB, h_buf = [], h_closed = False, h_delete = False\<rparr>]\<rparr>"
    by blast
  from rest have p: "p = os_path_join (tmpdir env) (''tmp'' @ random_name env k @ ''.txt'')"
    by (auto simp add: stmt_Ok file_name_Ok tmp wa fs_simps)
  from rest have "w1 = w\<lparr>clock := Suc (clock w), names_drawn := j,
              fs := AList.update p (File [] 384) (fs w),
              handles := handles w @
                [\<lparr>h_name = p, h_mode = ModeWPlusB, h_buf = [], h_closed = refcounting env,
                  h_delete = False\<rparr>]\<rparr>"
    by (cases "refcounting env")
      (auto simp add: stmt_Ok file_name_Ok drop_reference_Ok tempfile_close_Ok file_close_Ok
        flush_buffer_eq tmp wa p fs_simps)
  with p ok fresh show ?thesis
    by blast
qed

lemma example2_Ok:
  assumes run: "example2 env v = (Ok (), v')"
  shows "\<exists>k. stdout v' = stdout v @ check_mark
         @ '' Example 2: Manual cleanup with try-finally'' @ newline
         @ ''  Created: '' @ os_path_join (tmpdir env) (''tmp'' @ random_name env k @ ''.txt'') @ newline
         @ ''  Content: '' @ ''Manual cleanup example\<newline>'' @ newline
         @ ''  Manually cleaned up'' @ newline @ newline"
  using run
  apply (clarsimp simp add: example2_def stmt_Ok py_print_Ok)
  apply (drule example2_create_Ok)
  apply (clarsimp simp add: example2_try_def stmt_Ok py_print_Ok py_open_write_Ok file_write_Ok
      fs_simps)
  apply (clarsimp simp add: file_close_Ok flush_buffer_eq fs_simps py_open_read_Ok file_read_Ok
      py_print_Ok)
  apply (clarsimp simp add: example2_finally_Ok fs_exists_def fs_simps os_remove_Ok py_print_Ok)
  apply (auto simp add: newline_def)
  done

text \<open>
  Claim C3. In examples 1 and 2 the content read back through a new file object, opened
  on the same path after the writer flushed (example 1) or was closed (example 2), is
  the content that was written: a run that returns has printed, after \<^verbatim>\<open>Content:\<close>,
  exactly the text it wrote to the file.
\<close>

theorem read_back_is_what_was_written:
  "(example1 env w = (Ok (), w') \<longrightarrow>
      (\<exists>k. stdout w' = stdout w @ check_mark
         @ '' Example 1: Temporary file with context manager'' @ newline
         @ ''  Created: '' @ os_path_join (tmpdir env) (''tmp'' @ random_name env k @ ''.txt'') @ newline
         @ ''  Content: '' @ ''Sample data\<newline>Line 1\<newline>Line 2\<newline>'' @ newline
         @ ''  Auto-cleaned up on exit'' @ newline @ newline))
   \<and> (example2 env v = (Ok (), v') \<longrightarrow>
      (\<exists>k. stdout v' = stdout v @ check_mark
         @ '' Example 2: Manual cleanup with try-finally'' @ newline
         @ ''  Created: '' @ os_path_join (tmpdir env) (''tmp'' @ random_name env k @ ''.txt'') @ newline
         @ ''  Content: '' @ ''Manual cleanup example\<newline>'' @ newline
         @ ''  Manually cleaned up'' @ newline @ newline))"
  using example1_Ok [of env w w'] example2_Ok [of env v v'] by blast

theorem read_back_witness:
  "example1 env0 world0 = (Ok (), snd (example1 env0 world0))
   \<and> example2 env0 world0 = (Ok (), snd (example2 env0 world0))
   \<and> (\<exists>k. stdout (snd (example1 env0 world0)) = check_mark
         @ '' Example 1: Temporary file with context manager'' @ newline
         @ ''  Created: '' @ os_path_join ''/tmp'' (''tmp'' @ random_name env0 k @ ''.txt'') @ newline
         @ ''  Content: '' @ ''Sample data\<newline>Line 1\<newline>Line 2\<newline>'' @ newline
         @ ''  Auto-cleaned up on exit'' @ newline @ newline)
   \<and> (\<exists>k. stdout (snd (example2 env0 world0)) = check_mark
         @ '' Example 2: Manual cleanup with try-finally'' @ newline
         @ ''  Created: '' @ os_path_join ''/tmp'' (''tmp'' @ random_name env0 k @ ''.txt'') @ newline
         @ ''  Content: '' @ ''Manual cleanup example\<newline>'' @ newline
         @ ''  Manually cleaned up'' @ newline @ newline)"
proof -
  have "fst (example1 env0 world0) = Ok ()" and "fst (example2 env0 world0) = Ok ()"
    by code_simp+
  then have run1: "example1 env0 world0 = (Ok (), snd (example1 env0 world0))"
    and run2: "example2 env0 world0 = (Ok (), snd (example2 env0 world0))"
    by (simp_all add: prod_eq_iff)
  have "tmpdir env0 = ''/tmp''" and "stdout world0 = []"
    by (simp_all add: env0_def world0_def)
  with run1 run2
    read_back_is_what_was_written [of env0 world0 "snd (example1 env0 world0)" world0
      "snd (example2 env0 world0)"]
  show ?thesis by simp
qed

subsection \<open>Example 2: the file object of line 22\<close>

text \<open>
  Claim C9. In example 2 the file object that \<^verbatim>\<open>NamedTemporaryFile\<close> returns is closed
  before the path is opened again. The script never calls \<^verbatim>\<open>close\<close> on it: line 22
  keeps the name and drops the object, and the finaliser of a runtime that counts
  references closes it there. In the world in which the \<^verbatim>\<open>try\<close> block starts (which
  opens the path for writing and then for reading) that one new file object is closed.
\<close>

theorem initial_handle_closed:
  assumes "refcounting env"
    and "example2_create env w = (Ok temp_file, w1)"
  shows "\<exists>h. handles w1 = handles w @ [h] \<and> h_name h = temp_file \<and> h_closed h
    \<and> map_of (fs w1) temp_file = Some (File [] 384)"
  using example2_create_Ok [OF assms(2)] assms(1) by (auto simp add: fs_simps)

theorem initial_handle_closed_witness:
  "refcounting env0
   \<and> example2_create env0 world0 = (Ok ''/tmp/tmpabcdefgh.txt'', snd (example2_create env0 world0))
   \<and> (\<exists>h. handles (snd (example2_create env0 world0)) = handles world0 @ [h]
         \<and> h_name h = ''/tmp/tmpabcdefgh.txt'' \<and> h_closed h)"
proof -
  have rc: "refcounting env0"
    by (simp add: env0_def)
  have "fst (example2_create env0 world0) = Ok ''/tmp/tmpabcdefgh.txt''"
    by code_simp
  then have run: "example2_create env0 world0 =
      (Ok ''/tmp/tmpabcdefgh.txt'', snd (example2_create env0 world0))"
    by (simp add: prod_eq_iff)
  from initial_handle_closed [OF rc run] rc run show ?thesis
    by blast
qed

text \<open>
  Without reference counting the same line leaves the file object open, and nothing
  in the example closes it later: it is still open when the example has returned.
\<close>

lemma initial_handle_left_open:
  assumes "\<not> refcounting env"
    and "example2_create env w = (Ok temp_file, w1)"
  shows "\<exists>h. handles w1 = handles w @ [h] \<and> h_name h = temp_file \<and> \<not> h_closed h"
  using example2_create_Ok [OF assms(2)] assms(1) by auto

subsection \<open>Example 4: the child process\<close>

lemma example4_write_Ok:
  assumes run: "example4_write env w = (Ok p, w1)"
  shows "\<exists>k j. p = os_path_join (tmpdir env) (''tmp'' @ random_name env k @ ''.py'')
     \<and> \<not> fault env (clock w) \<and> \<not> fault env (Suc (clock w))
     \<and> \<not> fs_exists (fs w) p \<and> is_dir (fs w) (os_path_dirname p)
     \<and> w1 = w\<lparr>clock := Suc (Suc (clock w)), names_drawn := j,
              fs := AList.update p (File temp_script_source 384) (fs w),
              handles := handles w @
                [\<lparr>h_name = p, h_mode = ModeW, h_buf = [], h_closed = True, h_delete = False\<rparr>]\<rparr>"
proof -
  from run obtain f wa wb where
    ntf: "NamedTemporaryFile env ModeW False ''.py'' w = (Ok f, wa)"
    and body: "io_bind (file_name f) (\<lambda>temp_script.
       io_seq (file_write env f temp_script_source) (io_return temp_script)) wa = (Ok p, wb)"
    and closed: "tempfile_close f wb = (Ok (), w1)"
    by (auto simp add: example4_write_def with_stmt_Ok)
  from NamedTemporaryFile_Ok [OF ntf] obtain k j where
    f: "f = length (handles w)" and ok: "\<not> fault env (clock w)"
    and fresh: "\<not> fs_exists (fs w) (os_path_join (tmpdir env) (''tmp'' @ random_name env k @ ''.py''))"
      "is_dir (fs w) (os_path_dirname (os_path_join (tmpdir env) (''tmp'' @ random_name env k @ ''.py'')))"
    and wa: "wa = w\<lparr>clock := Suc (clock w), names_drawn := j,
       fs := AList.update (os_path_join (tmpdir env) (''tmp'' @ random_name env k @ ''.py''))
               (File [] 384) (fs w),
       handles := handles w @
         [\<lparr>h_name = os_path_join (tmpdir env) (''tmp'' @ random_name env k @ ''.py''),
           h_mode = ModeW, h_buf = [], h_closed = False, h_delete = False\<rparr>]\<rparr>"
    by blast
  from body have p: "p = os_path_join (tmpdir env) (''tmp'' @ random_name env k @ ''.py'')"
    and ok2: "\<not> fault env (Suc (clock w))"
    and wb: "wb = wa\<lparr>clock := Suc (Suc (clock w)),
       handles := handles w @
         [\<lparr>h_name = p, h_mode = ModeW, h_buf = temp_script_source, h_closed = False,
           h_delete = False\<rparr>]\<rparr>"
    by (auto simp add: stmt_Ok file_name_Ok file_write_Ok fs_simps f wa)
  from closed have "w1 = w\<lparr>clock := Suc (Suc (clock w)), names_drawn := j,
              fs := AList.update p (File temp_script_source 384) (fs w),
              handles := handles w @
                [\<lparr>h_name = p, h_mode = ModeW, h_buf = [], h_closed = True, h_delete = False\<rparr>]\<rparr>"
    by (simp add: tempfile_close_Ok file_close_Ok flush_buffer_eq fs_simps f wb wa p)
  with p ok ok2 fresh show ?thesis
    by blast
qed

lemma repr_args: "py_repr_list [''arg1'', ''arg2''] = ''['arg1', 'arg2']''"
  by code_simp

text \<open>
  Claim C2. When the generated script is spawned with the arguments \<^verbatim>\<open>arg1\<close> and
  \<^verbatim>\<open>arg2\<close>, its captured standard output is one line that holds both arguments as
  they are, and the child exits with status 0. The script is the file example 4
  wrote and made executable; the child is started and its \<^verbatim>\<open>print\<close> succeeds.
\<close>

theorem spawned_script_output:
  assumes written: "example4_write env w = (Ok temp_script, w1)"
    and chmod: "os_chmod env temp_script 493 w1 = (Ok (), w2)"
    and runs: "spawn env = Runs"
    and prints: "\<not> fault env (clock w2)"
  shows "example4_spawn env temp_script w2 =
     (Ok \<lparr>returncode = 0,
          proc_stdout = ''Temporary script running with args: ['arg1', 'arg2']'' @ newline\<rparr>,
      w2\<lparr>clock := Suc (clock w2)\<rparr>)"
proof -
  from example4_write_Ok [OF written] obtain k j where
    w1: "w1 = w\<lparr>clock := Suc (Suc (clock w)), names_drawn := j,
              fs := AList.update temp_script (File temp_script_source 384) (fs w),
              handles := handles w @
                [\<lparr>h_name = temp_script, h_mode = ModeW, h_buf = [], h_closed = True,
                  h_delete = False\<rparr>]\<rparr>"
    by auto
  from chmod have w2: "w2 = w1\<lparr>clock := Suc (clock w1),
      fs := AList.update temp_script (File temp_script_source 493) (fs w1)\<rparr>"
    by (simp add: os_chmod_Ok w1 fs_simps)
  have script_file: "map_of (fs w2) temp_script = Some (File temp_script_source 493)"
    by (simp add: w2 fs_simps)
  from runs prints script_file show ?thesis
    by (simp add: example4_spawn_def subprocess_run_def python_main_def temp_script_main_def
        io_defs exit_status_def repr_args)
qed

theorem spawned_script_output_witness:
  "example4_write env0 world0 =
     (Ok ''/tmp/tmpabcdefgh.py'', snd (example4_write env0 world0))
   \<and> os_chmod env0 ''/tmp/tmpabcdefgh.py'' 493 (snd (example4_write env0 world0)) =
       (Ok (), snd (os_chmod env0 ''/tmp/tmpabcdefgh.py'' 493 (snd (example4_write env0 world0))))
   \<and> spawn env0 = Runs
   \<and> fst (example4_spawn env0 ''/tmp/tmpabcdefgh.py''
        (snd (os_chmod env0 ''/tmp/tmpabcdefgh.py'' 493 (snd (example4_write env0 world0))))) =
       Ok \<lparr>returncode = 0,
           proc_stdout = ''Temporary script running with args: ['arg1', 'arg2']'' @ newline\<rparr>"
proof -
  let ?w1 = "snd (example4_write env0 world0)"
  let ?w2 = "snd (os_chmod env0 ''/tmp/tmpabcdefgh.py'' 493 ?w1)"
  have "fst (example4_write env0 world0) = Ok ''/tmp/tmpabcdefgh.py''"
    and "fst (os_chmod env0 ''/tmp/tmpabcdefgh.py'' 493 ?w1) = Ok ()"
    by code_simp+
  then have written: "example4_write env0 world0 = (Ok ''/tmp/tmpabcdefgh.py'', ?w1)"
    and chmod: "os_chmod env0 ''/tmp/tmpabcdefgh.py'' 493 ?w1 = (Ok (), ?w2)"
    by (simp_all add: prod_eq_iff)
  have runs: "spawn env0 = Runs" and prints: "\<not> fault env0 (clock ?w2)"
    by (simp_all add: env0_def)
  from spawned_script_output [OF written chmod runs prints] written chmod runs
  show ?thesis by simp
qed

lemma example4_try_ExecFails:
  assumes "spawn env = ExecFails"
  shows "example4_try env p w \<noteq> (Ok (), w')"
  using assms
  by (auto simp add: example4_try_def example4_spawn_def subprocess_run_def io_seq_Ok io_bind_Ok)

lemma example4_ExecFails:
  assumes "spawn env = ExecFails"
  shows "example4 env w \<noteq> (Ok (), w')"
  using example4_try_ExecFails [OF assms]
  by (auto simp add: example4_def io_seq_Ok io_bind_Ok try_finally_Ok)

lemma script_example4:
  assumes "script env w = (Ok (), w')"
  shows "\<exists>v v'. example4 env v = (Ok (), v')"
  using assms by (auto simp add: script_def io_seq_Ok)

text \<open>
  Claim C8, as the spec states it: a child that exits with a status other than 0 makes
  example 4 raise. It does not. With a child killed by signal 9, \<^verbatim>\<open>subprocess.run\<close>
  returns a result with \<open>returncode = -9\<close> and no output, and the example goes on: it
  prints the empty output and returns.
\<close>

theorem nonzero_exit_counterexample:
  "example4_spawn env_killed ''/tmp/tmpabcdefgh.py'' world0 =
     (Ok \<lparr>returncode = - 9, proc_stdout = []\<rparr>, world0)
   \<and> fst (example4 env_killed world0) = Ok ()
   \<and> stdout (snd (example4 env_killed world0)) =
       check_mark @ '' Example 4: Temporary script'' @ newline @ ''  '' @ newline @ newline"
proof -
  have "example4_spawn env_killed ''/tmp/tmpabcdefgh.py'' world0 =
     (Ok \<lparr>returncode = - 9, proc_stdout = []\<rparr>, world0)"
    by (simp add: example4_spawn_def subprocess_run_def env_killed_def env0_def)
  moreover have "fst (example4 env_killed world0) = Ok ()"
    by code_simp
  moreover have "stdout (snd (example4 env_killed world0)) =
       check_mark @ '' Example 4: Temporary script'' @ newline @ ''  '' @ newline @ newline"
    by code_simp
  ultimately show ?thesis by simp
qed

text \<open>
  Claim C8, amended. In example 4 a failure to start the child is not handled: the
  example raises, and so does the script. A status other than 0 is not an error:
  \<^verbatim>\<open>subprocess.run\<close> has no \<^verbatim>\<open>check=True\<close>, so whenever the child was started it
  returns a result, whatever the status, and the \<^verbatim>\<open>try\<close> block goes on to print the
  captured output without looking at \<open>returncode\<close>.
\<close>

theorem spawn_failure_propagates:
  "(spawn env = ExecFails \<longrightarrow>
      example4_spawn env p w = (Raised OSError, w)
      \<and> (\<exists>e. fst (example4 env w) = Raised e) \<and> (\<exists>e. fst (script env w) = Raised e))
   \<and> (spawn env \<noteq> ExecFails \<longrightarrow> (\<exists>result w'. example4_spawn env p w = (Ok result, w')))
   \<and> (os_chmod env p 493 w = (Ok (), w1) \<and> example4_spawn env p w1 = (Ok result, w2) \<longrightarrow>
        example4_try env p w =
          py_print env (''  '' @ py_strip (proc_stdout result) @ newline) w2)"
proof (intro conjI impI)
  assume fails: "spawn env = ExecFails"
  then show "example4_spawn env p w = (Raised OSError, w)"
    by (simp add: example4_spawn_def subprocess_run_def)
  from example4_ExecFails [OF fails] show "\<exists>e. fst (example4 env w) = Raised e"
    by (cases "example4 env w"; cases "fst (example4 env w)") auto
  from example4_ExecFails [OF fails] script_example4 [of env w]
  show "\<exists>e. fst (script env w) = Raised e"
    by (cases "script env w"; cases "fst (script env w)") auto
next
  assume "spawn env \<noteq> ExecFails"
  then show "\<exists>result w'. example4_spawn env p w = (Ok result, w')"
    by (cases "spawn env")
      (auto simp add: example4_spawn_def subprocess_run_def split: prod.splits)
next
  assume "os_chmod env p 493 w = (Ok (), w1) \<and> example4_spawn env p w1 = (Ok result, w2)"
  then show "example4_try env p w =
      py_print env (''  '' @ py_strip (proc_stdout result) @ newline) w2"
    by (simp add: example4_try_def io_seq_def io_bind_def)
qed

theorem spawn_failure_witness:
  "spawn (env0\<lparr>spawn := ExecFails\<rparr>) = ExecFails
   \<and> (\<exists>e. fst (example4 (env0\<lparr>spawn := ExecFails\<rparr>) world0) = Raised e)
   \<and> (\<exists>e. fst (script (env0\<lparr>spawn := ExecFails\<rparr>) world0) = Raised e)
   \<and> spawn env_killed \<noteq> ExecFails
   \<and> (\<exists>result w'. example4_spawn env_killed ''/tmp/tmpabcdefgh.py'' world0 = (Ok result, w'))
   \<and> os_chmod env_killed ''/tmp/tmpabcdefgh.py'' 493 world_file_py =
       (Ok (), snd (os_chmod env_killed ''/tmp/tmpabcdefgh.py'' 493 world_file_py))
   \<and> example4_try env_killed ''/tmp/tmpabcdefgh.py'' world_file_py =
       py_print env_killed (''  '' @ py_strip [] @ newline)
         (snd (os_chmod env_killed ''/tmp/tmpabcdefgh.py'' 493 world_file_py))"
proof -
  let ?w1 = "snd (os_chmod env_killed ''/tmp/tmpabcdefgh.py'' 493 world_file_py)"
  have fails: "spawn (env0\<lparr>spawn := ExecFails\<rparr>) = ExecFails"
    and killed: "spawn env_killed \<noteq> ExecFails"
    by (simp_all add: env_killed_def env0_def)
  have "fst (os_chmod env_killed ''/tmp/tmpabcdefgh.py'' 493 world_file_py) = Ok ()"
    by code_simp
  then have chmod: "os_chmod env_killed ''/tmp/tmpabcdefgh.py'' 493 world_file_py = (Ok (), ?w1)"
    by (simp add: prod_eq_iff)
  have run: "example4_spawn env_killed ''/tmp/tmpabcdefgh.py'' ?w1 =
      (Ok \<lparr>returncode = - 9, proc_stdout = []\<rparr>, ?w1)"
    by (simp add: example4_spawn_def subprocess_run_def env_killed_def env0_def)
  from fails killed chmod run
    spawn_failure_propagates [where env = "env0\<lparr>spawn := ExecFails\<rparr>" and w = world0]
    spawn_failure_propagates [where env = env_killed and w = world0
      and p = "''/tmp/tmpabcdefgh.py''"]
    spawn_failure_propagates [where env = env_killed and w = world_file_py
      and p = "''/tmp/tmpabcdefgh.py''" and ?w1.0 = ?w1 and ?w2.0 = ?w1
      and result = "\<lparr>returncode = - 9, proc_stdout = []\<rparr>"]
  show ?thesis by simp
qed

subsection \<open>Paths below a temporary directory\<close>

lemma slash_not_in_characters: "CHR ''/'' \<notin> set characters"
  by (simp add: characters_def)

lemma random_name_chars: "set (random_name env k) \<subseteq> set characters"
proof -
  have "0 < length characters"
    by (simp add: characters_def)
  then have "characters ! (n mod length characters) \<in> set characters" for n
    by simp
  then show ?thesis
    by (auto simp add: random_name_def)
qed

lemma random_name_nonempty: "random_name env k \<noteq> []"
  by (simp add: random_name_def upt_rec)

lemma tmp_dir_path_shape:
  assumes "d = os_path_join dir (''tmp'' @ random_name env k)"
  shows "d \<noteq> [] \<and> last d \<noteq> CHR ''/''"
proof -
  have "last (random_name env k) \<in> set characters"
    using random_name_chars [of env k] random_name_nonempty [of env k] last_in_set by blast
  then have "last (random_name env k) \<noteq> CHR ''/''"
    using slash_not_in_characters by metis
  with assms random_name_nonempty [of env k] show ?thesis
    by (auto simp add: os_path_join_def)
qed

lemma join_child:
  assumes "d \<noteq> []" and "last d \<noteq> CHR ''/''" and "n \<noteq> []" and "CHR ''/'' \<notin> set n"
  shows "os_path_join d n = d @ ''/'' @ n"
    and "os_path_dirname (d @ ''/'' @ n) = d"
    and "os_path_basename (d @ ''/'' @ n) = n"
proof -
  from assms(3,4) have "hd n \<noteq> CHR ''/''"
    by (cases n) auto
  with assms(1,2,3) show "os_path_join d n = d @ ''/'' @ n"
    by (simp add: os_path_join_def)
  have rev_path: "rev (d @ ''/'' @ n) = rev n @ CHR ''/'' # rev d"
    by simp
  have drop: "dropWhile (\<lambda>c. c \<noteq> CHR ''/'') (rev n @ CHR ''/'' # rev d) = CHR ''/'' # rev d"
    using assms(4) by (subst dropWhile_append2) auto
  have hd_rev_d: "hd (rev d) \<noteq> CHR ''/''"
    using assms(1,2) by (simp add: hd_rev)
  have strip: "dropWhile (\<lambda>c. c = CHR ''/'') (CHR ''/'' # rev d) = rev d"
    using assms(1) hd_rev_d by (cases "rev d") simp_all
  have "last d \<in> set d"
    using assms(1) by simp
  with assms(2) have not_all: "\<not> list_all (\<lambda>c. c = CHR ''/'') (d @ ''/'')"
    by (auto simp add: list_all_iff)
  have head: "rev (CHR ''/'' # rev d) = d @ ''/''"
    by simp
  show "os_path_dirname (d @ ''/'' @ n) = d"
    unfolding os_path_dirname_def Let_def rev_path drop head
    using not_all strip by simp
  have "takeWhile (\<lambda>c. c \<noteq> CHR ''/'') (rev n @ CHR ''/'' # rev d) = rev n"
    using assms(4) by (simp add: takeWhile_append)
  then show "os_path_basename (d @ ''/'' @ n) = n"
    unfolding os_path_basename_def rev_path by simp
qed

lemma join_not_self:
  assumes "n \<noteq> []" and "hd n \<noteq> CHR ''/''"
  shows "os_path_join d n \<noteq> d"
  using assms by (auto simp add: os_path_join_def)

lemma wf_fs_no_child_of_fresh:
  assumes wf: "wf_fs t" and fresh: "\<not> fs_exists t d" and key: "p \<in> fst ` set t"
  shows "os_path_dirname p \<noteq> d"
proof
  assume parent: "os_path_dirname p = d"
  from wf key have "os_path_dirname p = p \<or> is_dir t (os_path_dirname p)"
    by (auto simp add: wf_fs_def list_all_iff)
  then show False
  proof
    assume "os_path_dirname p = p"
    with parent key have "d \<in> fst ` set t"
      by simp
    then have "map_of t d \<noteq> None"
      by (simp add: map_of_eq_None_iff)
    with fresh show False
      by (simp add: fs_exists_def)
  next
    assume "is_dir t (os_path_dirname p)"
    with parent fresh show False
      by (simp add: is_dir_def fs_exists_def)
  qed
qed

lemma set_dir_entries:
  "set (dir_entries t d) =
     os_path_basename ` {p \<in> fst ` set t. os_path_dirname p = d \<and> p \<noteq> d}"
  by (auto simp add: dir_entries_def)

subsection \<open>What a block keeps true\<close>

lemma preserves_return: "preserves I (io_return x)"
  by (simp add: preserves_def io_return_def)

lemma preserves_bind:
  assumes "preserves I m" and "\<And>x. preserves I (k x)"
  shows "preserves I (io_bind m k)"
proof -
  have "I (snd (io_bind m k w))" if "I w" for w
  proof (cases "m w")
    case (Pair r w1)
    with assms(1) that have "I w1"
      by (auto simp add: preserves_def dest: spec [of _ w])
    with assms(2) Pair show ?thesis
      by (cases r) (auto simp add: preserves_def io_bind_def)
  qed
  then show ?thesis
    by (simp add: preserves_def)
qed

lemma preserves_seq:
  assumes "preserves I m" and "preserves I k"
  shows "preserves I (io_seq m k)"
  using assms by (simp add: io_seq_def preserves_bind)

lemma preserves_try_finally:
  assumes "preserves I body" and "preserves I fin"
  shows "preserves I (try_finally body fin)"
proof -
  have "I (snd (try_finally body fin w))" if "I w" for w
  proof (cases "body w")
    case (Pair r w1)
    with assms(1) that have "I w1"
      by (auto simp add: preserves_def dest: spec [of _ w])
    with assms(2) have "I (snd (fin w1))"
      by (simp add: preserves_def)
    with Pair show ?thesis
      by (cases "fin w1") (auto simp add: try_finally_def split: res.splits)
  qed
  then show ?thesis
    by (simp add: preserves_def)
qed

lemma preserves_with_stmt:
  assumes "preserves I mgr" and "\<And>r. preserves I (body r)" and "\<And>r. preserves I (exit_action r)"
  shows "preserves I (with_stmt mgr exit_action body)"
  using assms by (simp add: with_stmt_def preserves_bind preserves_try_finally)

lemma preserves_for_each:
  assumes "\<And>x. preserves I (body x)"
  shows "preserves I (for_each xs body)"
  using assms by (induction xs) (simp_all add: preserves_return preserves_seq)

lemma snd_try_finally: "snd (try_finally body fin w) = snd (fin (snd (body w)))"
  by (cases "body w"; cases "fin (snd (body w))") (auto simp add: try_finally_def split: res.splits)

text \<open>The calls in the body of example 1 keep \<open>owns_file f p\<close>.\<close>

lemma owns_file_print: "preserves (owns_file f p) (py_print env s)"
  by (simp add: preserves_def owns_file_def io_defs)

lemma owns_file_file_name: "preserves (owns_file f p) (file_name g)"
  by (simp add: preserves_def owns_file_def file_name_def with_handle_def io_defs)

lemma owns_file_file_write: "preserves (owns_file f p) (file_write env g s)"
  by (auto simp add: preserves_def owns_file_def file_write_def with_handle_def io_defs
      nth_list_update)

lemma owns_file_flush_buffer:
  assumes "owns_file f p w" and "g < length (handles w)"
  shows "owns_file f p (flush_buffer g (handles w ! g) w)"
  using assms
  by (auto simp add: owns_file_def flush_buffer_eq nth_list_update fs_simps
      split: option.splits node.splits)

lemma owns_file_file_flush: "preserves (owns_file f p) (file_flush env g)"
proof -
  have "owns_file f p (snd (file_flush env g w))" if "owns_file f p w" for w
  proof -
    let ?w = "w\<lparr>clock := Suc (clock w)\<rparr>"
    from that have ticked: "owns_file f p ?w"
      by (simp add: owns_file_def)
    have "owns_file f p (flush_buffer g (handles w ! g) ?w)" if "g < length (handles w)"
      using owns_file_flush_buffer [OF ticked, of g] that by simp
    with ticked show ?thesis
      by (simp add: file_flush_def with_handle_def io_defs)
  qed
  then show ?thesis
    by (simp add: preserves_def)
qed

lemma owns_file_file_close: "preserves (owns_file f p) (file_close g)"
  by (auto simp add: preserves_def owns_file_def file_close_def with_handle_def Let_def
      flush_buffer_eq nth_list_update fs_simps split: option.splits node.splits if_splits)

lemma owns_file_file_read: "preserves (owns_file f p) (file_read env g)"
  by (auto simp add: preserves_def owns_file_def file_read_def with_handle_def io_defs
      split: option.splits node.splits)

lemma owns_file_py_open: "preserves (owns_file f p) (py_open env q mode)"
  by (auto simp add: preserves_def owns_file_def py_open_def new_handle_def io_defs Let_def
      fs_simps split: option.splits node.splits)

lemmas owns_file_rules =
  preserves_return preserves_bind preserves_seq preserves_try_finally preserves_with_stmt
  owns_file_print owns_file_file_name owns_file_file_write owns_file_file_flush
  owns_file_file_close owns_file_file_read owns_file_py_open

lemma example1_body_owns_file: "preserves (owns_file f p) (example1_body env f)"
  unfolding example1_body_def by (intro owns_file_rules)

lemma tempfile_close_removes:
  assumes "owns_file f p w"
  shows "\<not> fs_exists (fs (snd (tempfile_close f w))) p"
proof -
  from assms have "f < length (handles w)"
    by (simp add: owns_file_def)
  then obtain w1 where closed: "file_close f w = (Ok (), w1)"
    by (simp add: file_close_Ok)
  from owns_file_file_close [of f p f] assms closed have "owns_file f p w1"
    by (auto simp add: preserves_def dest: spec [of _ w])
  with closed show ?thesis
    by (auto simp add: tempfile_close_def with_handle_def io_defs owns_file_def fs_exists_def
        fs_simps split: option.splits node.splits)
qed

text \<open>The calls in the body of example 3 keep \<open>not_a_file d\<close>.\<close>

lemma not_a_file_print: "preserves (not_a_file d) (py_print env s)"
  by (simp add: preserves_def not_a_file_def io_defs)

lemma not_a_file_file_write: "preserves (not_a_file d) (file_write env g s)"
  by (auto simp add: preserves_def not_a_file_def file_write_def with_handle_def io_defs)

lemma not_a_file_file_close: "preserves (not_a_file d) (file_close g)"
  by (auto simp add: preserves_def not_a_file_def file_close_def with_handle_def Let_def
      flush_buffer_eq fs_simps split: option.splits node.splits)

lemma not_a_file_listdir: "preserves (not_a_file d) (os_listdir env q)"
  by (auto simp add: preserves_def not_a_file_def os_listdir_def io_defs
      split: option.splits node.splits)

lemma not_a_file_py_open:
  assumes "q \<noteq> d"
  shows "preserves (not_a_file d) (py_open env q mode)"
  using assms
  by (auto simp add: preserves_def not_a_file_def py_open_def new_handle_def io_defs Let_def
      fs_simps split: option.splits node.splits)

lemma example3_body_not_a_file: "preserves (not_a_file d) (example3_body env d)"
  unfolding example3_body_def
  by (intro preserves_seq preserves_bind preserves_for_each preserves_with_stmt
      not_a_file_print not_a_file_file_write not_a_file_file_close not_a_file_listdir
      not_a_file_py_open join_not_self) simp_all

lemma tmpdir_cleanup_removes:
  assumes "not_a_file d w"
  shows "\<not> fs_exists (fs (snd (tmpdir_cleanup d w))) d"
proof (cases "map_of (fs w) d")
  case None
  then show ?thesis
    by (simp add: tmpdir_cleanup_def fs_exists_def)
next
  case (Some n)
  with assms have n: "n = Dir"
    by (cases n) (simp_all add: not_a_file_def)
  have "d \<notin> fst ` set (filter (\<lambda>(p, n). p \<noteq> d \<and> \<not> prefix (os_path_join d []) p) (fs w))"
    by auto
  then have "map_of (filter (\<lambda>(p, n). p \<noteq> d \<and> \<not> prefix (os_path_join d []) p) (fs w)) d = None"
    by (simp only: map_of_eq_None_iff) simp
  with Some n show ?thesis
    by (simp add: tmpdir_cleanup_def fs_exists_def)
qed

text \<open>
  Claim C5. For the temporary file of example 1 and the temporary directory of
  example 3, the path does not exist any more when the \<^verbatim>\<open>with\<close> statement that owns
  it is left, whether its body returned or raised (\<open>r\<close> is any outcome).
\<close>

theorem scoped_path_gone_after_scope:
  "(NamedTemporaryFile env ModeW True ''.txt'' w = (Ok f, w1)
      \<and> try_finally (example1_body env f) (tempfile_close f) w1 = (r, w2)
      \<longrightarrow> \<not> fs_exists (fs w2) (h_name (handles w1 ! f)))
   \<and> (TemporaryDirectory env v = (Ok temp_dir, v1)
      \<and> try_finally (example3_body env temp_dir) (tmpdir_cleanup temp_dir) v1 = (r', v2)
      \<longrightarrow> \<not> fs_exists (fs v2) temp_dir)"
proof (intro conjI impI; elim conjE)
  assume made: "NamedTemporaryFile env ModeW True ''.txt'' w = (Ok f, w1)"
    and scope: "try_finally (example1_body env f) (tempfile_close f) w1 = (r, w2)"
  let ?p = "h_name (handles w1 ! f)"
  from NamedTemporaryFile_Ok [OF made] have "owns_file f ?p w1"
    by (auto simp add: owns_file_def fs_simps)
  with example1_body_owns_file [of f ?p env]
  have "owns_file f ?p (snd (example1_body env f w1))"
    by (simp add: preserves_def)
  from tempfile_close_removes [OF this] scope snd_try_finally [of "example1_body env f" "tempfile_close f" w1]
  show "\<not> fs_exists (fs w2) ?p"
    by simp
next
  assume made: "TemporaryDirectory env v = (Ok temp_dir, v1)"
    and scope: "try_finally (example3_body env temp_dir) (tmpdir_cleanup temp_dir) v1 = (r', v2)"
  from TemporaryDirectory_Ok [OF made] have "not_a_file temp_dir v1"
    by (auto simp add: not_a_file_def fs_simps)
  with example3_body_not_a_file [of temp_dir env]
  have "not_a_file temp_dir (snd (example3_body env temp_dir v1))"
    by (simp add: preserves_def)
  from tmpdir_cleanup_removes [OF this] scope
    snd_try_finally [of "example3_body env temp_dir" "tmpdir_cleanup temp_dir" v1]
  show "\<not> fs_exists (fs v2) temp_dir"
    by simp
qed

theorem scoped_path_gone_witness:
  "NamedTemporaryFile env0 ModeW True ''.txt'' world0 =
     (Ok 0, snd (NamedTemporaryFile env0 ModeW True ''.txt'' world0))
   \<and> h_name (handles (snd (NamedTemporaryFile env0 ModeW True ''.txt'' world0)) ! 0) =
       ''/tmp/tmpabcdefgh.txt''
   \<and> fst (try_finally (example1_body env0 0) (tempfile_close 0)
        (snd (NamedTemporaryFile env0 ModeW True ''.txt'' world0))) = Ok ()
   \<and> \<not> fs_exists (fs (snd (try_finally (example1_body env0 0) (tempfile_close 0)
        (snd (NamedTemporaryFile env0 ModeW True ''.txt'' world0))))) ''/tmp/tmpabcdefgh.txt''
   \<and> NamedTemporaryFile env_faulty ModeW True ''.txt'' world0 =
       (Ok 0, snd (NamedTemporaryFile env_faulty ModeW True ''.txt'' world0))
   \<and> h_name (handles (snd (NamedTemporaryFile env_faulty ModeW True ''.txt'' world0)) ! 0) =
       ''/tmp/tmpabcdefgh.txt''
   \<and> fst (try_finally (example1_body env_faulty 0) (tempfile_close 0)
        (snd (NamedTemporaryFile env_faulty ModeW True ''.txt'' world0))) = Raised OSError
   \<and> \<not> fs_exists (fs (snd (try_finally (example1_body env_faulty 0) (tempfile_close 0)
        (snd (NamedTemporaryFile env_faulty ModeW True ''.txt'' world0))))) ''/tmp/tmpabcdefgh.txt''
   \<and> TemporaryDirectory env_faulty world0 =
       (Ok ''/tmp/tmpabcdefgh'', snd (TemporaryDirectory env_faulty world0))
   \<and> fst (try_finally (example3_body env_faulty ''/tmp/tmpabcdefgh'')
        (tmpdir_cleanup ''/tmp/tmpabcdefgh'') (snd (TemporaryDirectory env_faulty world0))) =
       Raised OSError
   \<and> \<not> fs_exists (fs (snd (try_finally (example3_body env_faulty ''/tmp/tmpabcdefgh'')
        (tmpdir_cleanup ''/tmp/tmpabcdefgh'') (snd (TemporaryDirectory env_faulty world0)))))
        ''/tmp/tmpabcdefgh''"
proof -
  let ?w1 = "snd (NamedTemporaryFile env0 ModeW True ''.txt'' world0)"
  let ?w2 = "snd (try_finally (example1_body env0 0) (tempfile_close 0) ?w1)"
  let ?u1 = "snd (NamedTemporaryFile env_faulty ModeW True ''.txt'' world0)"
  let ?u2 = "snd (try_finally (example1_body env_faulty 0) (tempfile_close 0) ?u1)"
  let ?v1 = "snd (TemporaryDirectory env_faulty world0)"
  let ?v2 = "snd (try_finally (example3_body env_faulty ''/tmp/tmpabcdefgh'')
        (tmpdir_cleanup ''/tmp/tmpabcdefgh'') ?v1)"
  have "fst (NamedTemporaryFile env0 ModeW True ''.txt'' world0) = Ok 0"
    and "fst (NamedTemporaryFile env_faulty ModeW True ''.txt'' world0) = Ok 0"
    and "fst (TemporaryDirectory env_faulty world0) = Ok ''/tmp/tmpabcdefgh''"
    by code_simp+
  then have made: "NamedTemporaryFile env0 ModeW True ''.txt'' world0 = (Ok 0, ?w1)"
    and made_f: "NamedTemporaryFile env_faulty ModeW True ''.txt'' world0 = (Ok 0, ?u1)"
    and made_d: "TemporaryDirectory env_faulty world0 = (Ok ''/tmp/tmpabcdefgh'', ?v1)"
    by (simp_all add: prod_eq_iff)
  have names: "h_name (handles ?w1 ! 0) = ''/tmp/tmpabcdefgh.txt''"
    "h_name (handles ?u1 ! 0) = ''/tmp/tmpabcdefgh.txt''"
    by code_simp+
  have outcomes: "fst (try_finally (example1_body env0 0) (tempfile_close 0) ?w1) = Ok ()"
    "fst (try_finally (example1_body env_faulty 0) (tempfile_close 0) ?u1) = Raised OSError"
    "fst (try_finally (example3_body env_faulty ''/tmp/tmpabcdefgh'')
        (tmpdir_cleanup ''/tmp/tmpabcdefgh'') ?v1) = Raised OSError"
    by code_simp+
  then have scope: "try_finally (example1_body env0 0) (tempfile_close 0) ?w1 = (Ok (), ?w2)"
    and scope_f: "try_finally (example1_body env_faulty 0) (tempfile_close 0) ?u1 =
       (Raised OSError, ?u2)"
    and scope_d: "try_finally (example3_body env_faulty ''/tmp/tmpabcdefgh'')
        (tmpdir_cleanup ''/tmp/tmpabcdefgh'') ?v1 = (Raised OSError, ?v2)"
    by (simp_all add: prod_eq_iff)
  from made made_f made_d names outcomes scope scope_f scope_d
    scoped_path_gone_after_scope [where env = env0 and w = world0 and f = 0 and ?w1.0 = ?w1
      and r = "Ok ()" and ?w2.0 = ?w2 and v = world0 and temp_dir = "''/tmp/tmpabcdefgh''"
      and ?v1.0 = ?v1 and r' = "Raised OSError" and ?v2.0 = ?v2]
    scoped_path_gone_after_scope [where env = env_faulty and w = world0 and f = 0 and ?w1.0 = ?u1
      and r = "Raised OSError" and ?w2.0 = ?u2 and v = world0
      and temp_dir = "''/tmp/tmpabcdefgh''" and ?v1.0 = ?v1 and r' = "Raised OSError"
      and ?v2.0 = ?v2]
  show ?thesis
    by simp
qed

subsection \<open>Example 3: the files in the temporary directory\<close>

lemma range3: "[0..<3] = [0, 1, 2]"
  by (simp add: upt_rec)

lemma py_str_nat_digits:
  "py_str_nat 0 = ''0''" "py_str_nat (Suc 0) = ''1''" "py_str_nat 2 = ''2''"
  by (simp_all add: py_str_nat.simps hex_digit_def)

text \<open>One turn of the loop: a file that was not there is created with its content.\<close>

lemma write_new_file_Ok:
  assumes run: "with_stmt (py_open env p ModeW) file_close (\<lambda>f. file_write env f s) w = (Ok (), w')"
    and new: "map_of (fs w) p = None"
  shows "w' = w\<lparr>clock := Suc (Suc (clock w)),
      fs := AList.update p (File s (create_mode env)) (fs w),
      handles := handles w @
        [\<lparr>h_name = p, h_mode = ModeW, h_buf = [], h_closed = True, h_delete = False\<rparr>]\<rparr>"
  using run new
  apply (clarsimp simp add: with_stmt_Ok py_open_write_Ok file_write_Ok fs_simps)
  apply (clarsimp simp add: file_close_Ok flush_buffer_eq fs_simps)
  done

lemma example3_body_Ok:
  assumes shape: "d \<noteq> []" "last d \<noteq> CHR ''/''"
    and empty: "\<forall>p \<in> fst ` set (fs w). os_path_dirname p \<noteq> d"
    and run: "example3_body env d w = (Ok (), w')"
  shows "fs w' =
      AList.update (d @ ''/file2.txt'') (File ''File 2 content\<newline>'' (create_mode env))
     (AList.update (d @ ''/file1.txt'') (File ''File 1 content\<newline>'' (create_mode env))
     (AList.update (d @ ''/file0.txt'') (File ''File 0 content\<newline>'' (create_mode env)) (fs w)))"
    and "stdout w' = stdout w @ ''  Created: '' @ d @ newline
      @ ''  Files created: '' @ py_repr_list (sort_key (listdir_key env) (dir_entries (fs w') d))
      @ newline"
proof -
  have j0: "os_path_join d ''file0.txt'' = d @ ''/file0.txt''"
    and j1: "os_path_join d ''file1.txt'' = d @ ''/file1.txt''"
    and j2: "os_path_join d ''file2.txt'' = d @ ''/file2.txt''"
    using join_child(1) [OF shape] by simp_all
  have d0: "os_path_dirname (d @ ''/file0.txt'') = d"
    and d1: "os_path_dirname (d @ ''/file1.txt'') = d"
    and d2: "os_path_dirname (d @ ''/file2.txt'') = d"
    using join_child(2) [OF shape, of "''file0.txt''"] join_child(2) [OF shape, of "''file1.txt''"]
      join_child(2) [OF shape, of "''file2.txt''"] by simp_all
  from empty have absent: "map_of (fs w) (d @ ''/file0.txt'') = None"
    "map_of (fs w) (d @ ''/file1.txt'') = None" "map_of (fs w) (d @ ''/file2.txt'') = None"
    using d0 d1 d2 by (auto simp add: map_of_eq_None_iff)
  from run obtain w1 w2 w3 w4 where
    created: "py_print env (''  Created: '' @ d) w = (Ok (), w1)"
    and f0: "with_stmt (py_open env (d @ ''/file0.txt'') ModeW) file_close
        (\<lambda>f. file_write env f ''File 0 content\<newline>'') w1 = (Ok (), w2)"
    and f1: "with_stmt (py_open env (d @ ''/file1.txt'') ModeW) file_close
        (\<lambda>f. file_write env f ''File 1 content\<newline>'') w2 = (Ok (), w3)"
    and f2: "with_stmt (py_open env (d @ ''/file2.txt'') ModeW) file_close
        (\<lambda>f. file_write env f ''File 2 content\<newline>'') w3 = (Ok (), w4)"
    and listed: "io_bind (os_listdir env d) (\<lambda>files.
          py_print env (''  Files created: '' @ py_repr_list files)) w4 = (Ok (), w')"
    by (auto simp add: example3_body_def range3 py_str_nat_digits io_seq_Ok j0 j1 j2)
  from created have w1: "fs w1 = fs w" "stdout w1 = stdout w @ ''  Created: '' @ d @ newline"
    by (auto simp add: py_print_Ok)
  from write_new_file_Ok [OF f0] absent w1
  have w2: "fs w2 = AList.update (d @ ''/file0.txt'')
      (File ''File 0 content\<newline>'' (create_mode env)) (fs w)" "stdout w2 = stdout w1"
    by simp_all
  from write_new_file_Ok [OF f1] absent w2
  have w3: "fs w3 = AList.update (d @ ''/file1.txt'')
      (File ''File 1 content\<newline>'' (create_mode env)) (fs w2)" "stdout w3 = stdout w1"
    by (simp_all add: fs_simps)
  from write_new_file_Ok [OF f2] absent w2 w3
  have w4: "fs w4 = AList.update (d @ ''/file2.txt'')
      (File ''File 2 content\<newline>'' (create_mode env)) (fs w3)" "stdout w4 = stdout w1"
    by (simp_all add: fs_simps)
  from listed have "fs w' = fs w4"
    and "stdout w' = stdout w4
      @ ''  Files created: '' @ py_repr_list (sort_key (listdir_key env) (dir_entries (fs w4) d))
      @ newline"
    by (auto simp add: io_bind_Ok os_listdir_Ok py_print_Ok)
  with w1 w2 w3 w4 show "fs w' =
      AList.update (d @ ''/file2.txt'') (File ''File 2 content\<newline>'' (create_mode env))
     (AList.update (d @ ''/file1.txt'') (File ''File 1 content\<newline>'' (create_mode env))
     (AList.update (d @ ''/file0.txt'') (File ''File 0 content\<newline>'' (create_mode env)) (fs w)))"
    and "stdout w' = stdout w @ ''  Created: '' @ d @ newline
      @ ''  Files created: '' @ py_repr_list (sort_key (listdir_key env) (dir_entries (fs w') d))
      @ newline"
    by simp_all
qed

text \<open>
  Claim C1. In example 3 exactly three files are created in the temporary directory,
  named \<^verbatim>\<open>file0.txt\<close>, \<^verbatim>\<open>file1.txt\<close> and \<^verbatim>\<open>file2.txt\<close>, and the listing that the
  example prints holds exactly these three names, each once. \<open>w1\<close> is the world in
  which the \<^verbatim>\<open>with\<close> body starts and \<open>w2\<close> the one it leaves, before the directory is
  cleaned up. The listing is in the order the environment gives.
\<close>

theorem temp_dir_holds_three_files:
  assumes wf: "wf_fs (fs w)"
    and made: "TemporaryDirectory env w = (Ok temp_dir, w1)"
    and body: "example3_body env temp_dir w1 = (Ok (), w2)"
  shows "set (dir_entries (fs w2) temp_dir) = {''file0.txt'', ''file1.txt'', ''file2.txt''}
    \<and> length (dir_entries (fs w2) temp_dir) = 3
    \<and> map_of (fs w2) (os_path_join temp_dir ''file0.txt'') =
        Some (File ''File 0 content\<newline>'' (create_mode env))
    \<and> map_of (fs w2) (os_path_join temp_dir ''file1.txt'') =
        Some (File ''File 1 content\<newline>'' (create_mode env))
    \<and> map_of (fs w2) (os_path_join temp_dir ''file2.txt'') =
        Some (File ''File 2 content\<newline>'' (create_mode env))
    \<and> (\<exists>files. set files = {''file0.txt'', ''file1.txt'', ''file2.txt''} \<and> length files = 3
          \<and> stdout w2 = stdout w1 @ ''  Created: '' @ temp_dir @ newline
               @ ''  Files created: '' @ py_repr_list files @ newline)"
proof -
  from TemporaryDirectory_Ok [OF made] obtain k j where
    d: "temp_dir = os_path_join (tmpdir env) (''tmp'' @ random_name env k)"
    and fresh: "\<not> fs_exists (fs w) temp_dir"
    and w1: "w1 = w\<lparr>clock := Suc (clock w), names_drawn := j,
       fs := AList.update temp_dir Dir (fs w)\<rparr>"
    by blast
  from tmp_dir_path_shape [OF d] have shape: "temp_dir \<noteq> []" "last temp_dir \<noteq> CHR ''/''"
    by simp_all
  have old: "os_path_dirname p \<noteq> temp_dir" if "p \<in> fst ` set (fs w)" for p
    using wf_fs_no_child_of_fresh [OF wf fresh that] .
  have self: "os_path_dirname temp_dir \<noteq> temp_dir"
  proof
    assume "os_path_dirname temp_dir = temp_dir"
    moreover from TemporaryDirectory_Ok [OF made]
    have "is_dir (fs w) (os_path_dirname temp_dir)"
      by blast
    ultimately show False
      using fresh by (simp add: is_dir_def fs_exists_def)
  qed
  have empty: "\<forall>p \<in> fst ` set (fs w1). os_path_dirname p \<noteq> temp_dir"
    using old self by (auto simp add: w1 dom_update)
  note run = example3_body_Ok [OF shape empty body]
  have j0: "os_path_join temp_dir ''file0.txt'' = temp_dir @ ''/file0.txt''"
    and j1: "os_path_join temp_dir ''file1.txt'' = temp_dir @ ''/file1.txt''"
    and j2: "os_path_join temp_dir ''file2.txt'' = temp_dir @ ''/file2.txt''"
    using join_child(1) [OF shape] by simp_all
  have d0: "os_path_dirname (temp_dir @ ''/file0.txt'') = temp_dir"
    and d1: "os_path_dirname (temp_dir @ ''/file1.txt'') = temp_dir"
    and d2: "os_path_dirname (temp_dir @ ''/file2.txt'') = temp_dir"
    using join_child(2) [OF shape, of "''file0.txt''"] join_child(2) [OF shape, of "''file1.txt''"]
      join_child(2) [OF shape, of "''file2.txt''"] by simp_all
  have b0: "os_path_basename (temp_dir @ ''/file0.txt'') = ''file0.txt''"
    and b1: "os_path_basename (temp_dir @ ''/file1.txt'') = ''file1.txt''"
    and b2: "os_path_basename (temp_dir @ ''/file2.txt'') = ''file2.txt''"
    using join_child(3) [OF shape, of "''file0.txt''"] join_child(3) [OF shape, of "''file1.txt''"]
      join_child(3) [OF shape, of "''file2.txt''"] by simp_all
  have keys: "{p \<in> fst ` set (fs w2). os_path_dirname p = temp_dir \<and> p \<noteq> temp_dir} =
      {temp_dir @ ''/file0.txt'', temp_dir @ ''/file1.txt'', temp_dir @ ''/file2.txt''}"
    using empty d0 d1 d2 by (auto simp add: run(1) dom_update)
  have entries: "set (dir_entries (fs w2) temp_dir) = {''file0.txt'', ''file1.txt'', ''file2.txt''}"
    by (simp add: set_dir_entries keys b0 b1 b2)
  have "distinct (dir_entries (fs w2) temp_dir)"
    by (simp add: dir_entries_def)
  then have "length (dir_entries (fs w2) temp_dir) = card (set (dir_entries (fs w2) temp_dir))"
    by (simp add: distinct_card)
  with entries have len: "length (dir_entries (fs w2) temp_dir) = 3"
    by simp
  let ?files = "sort_key (listdir_key env) (dir_entries (fs w2) temp_dir)"
  from entries len have "set ?files = {''file0.txt'', ''file1.txt'', ''file2.txt''}"
    and "length ?files = 3"
    by simp_all
  with run(2) have listing: "\<exists>files. set files = {''file0.txt'', ''file1.txt'', ''file2.txt''}
      \<and> length files = 3
      \<and> stdout w2 = stdout w1 @ ''  Created: '' @ temp_dir @ newline
           @ ''  Files created: '' @ py_repr_list files @ newline"
    by blast
  have "map_of (fs w2) (temp_dir @ ''/file0.txt'') =
        Some (File ''File 0 content\<newline>'' (create_mode env))"
    and "map_of (fs w2) (temp_dir @ ''/file1.txt'') =
        Some (File ''File 1 content\<newline>'' (create_mode env))"
    and "map_of (fs w2) (temp_dir @ ''/file2.txt'') =
        Some (File ''File 2 content\<newline>'' (create_mode env))"
    by (simp_all add: run(1) fs_simps)
  with entries len listing show ?thesis
    by (simp add: j0 j1 j2)
qed

theorem temp_dir_holds_three_files_witness:
  "wf_fs (fs world0)
   \<and> TemporaryDirectory env0 world0 =
       (Ok ''/tmp/tmpabcdefgh'', snd (TemporaryDirectory env0 world0))
   \<and> example3_body env0 ''/tmp/tmpabcdefgh'' (snd (TemporaryDirectory env0 world0)) =
       (Ok (), snd (example3_body env0 ''/tmp/tmpabcdefgh'' (snd (TemporaryDirectory env0 world0))))
   \<and> set (dir_entries
         (fs (snd (example3_body env0 ''/tmp/tmpabcdefgh'' (snd (TemporaryDirectory env0 world0)))))
         ''/tmp/tmpabcdefgh'') = {''file0.txt'', ''file1.txt'', ''file2.txt''}
   \<and> length (dir_entries
         (fs (snd (example3_body env0 ''/tmp/tmpabcdefgh'' (snd (TemporaryDirectory env0 world0)))))
         ''/tmp/tmpabcdefgh'') = 3"
proof -
  let ?w1 = "snd (TemporaryDirectory env0 world0)"
  let ?w2 = "snd (example3_body env0 ''/tmp/tmpabcdefgh'' ?w1)"
  have wf: "wf_fs (fs world0)"
    by code_simp
  have "fst (TemporaryDirectory env0 world0) = Ok ''/tmp/tmpabcdefgh''"
    and "fst (example3_body env0 ''/tmp/tmpabcdefgh'' ?w1) = Ok ()"
    by code_simp+
  then have made: "TemporaryDirectory env0 world0 = (Ok ''/tmp/tmpabcdefgh'', ?w1)"
    and body: "example3_body env0 ''/tmp/tmpabcdefgh'' ?w1 = (Ok (), ?w2)"
    by (simp_all add: prod_eq_iff)
  from temp_dir_holds_three_files [OF wf made body] wf made body show ?thesis
    by blast
qed

end
